theory Spec2Isabelle
  imports Complex_Main "HOL-Library.Word"
begin

section \<open>kthoom: the Book orchestrator (book.js)\<close>

text \<open>
  A shallow embedding of class \<open>Book\<close> of book.js. The private fields of the class are a
  record; every method is a function on a \<open>world\<close>, which holds the Book, the JavaScript
  heap objects the Book refers to (ArrayBuffers and BookMetadata objects, each at an address)
  and the suspended asynchronous computations of the Book (the load in flight, the binding
  pipeline, the reactions registered on the promise of the binding pipeline).
  A \<open>throw\<close> (or the rejection of the promise an \<open>async\<close> method returns) is a value
  \<open>Inl e\<close>; the world returned with it is the world the throw leaves behind.
\<close>

subsection \<open>Values\<close>

type_synonym byte = "8 word"

text \<open>The contents of an ArrayBuffer.\<close>
type_synonym ArrayBuffer = "byte list"

text \<open>An address of a heap object: the index of the object in its store.\<close>
type_synonym addr = nat

datatype Page = Page nat

datatype Request = Request (url: string)
datatype File = File (file_name: string)
datatype FileSystemFileHandle = FileSystemFileHandle (handle_name: string)

text \<open>
  The second argument of the constructor, \<open>string|File|FileSystemFileHandle|Request\<close>, with
  \<open>undefined\<close> as its default.
\<close>
datatype source_arg =
    ArgUndefined
  | ArgString string
  | ArgRequest Request
  | ArgFile File
  | ArgFileHandle FileSystemFileHandle

text \<open>JavaScript truthiness: \<open>undefined\<close> and the empty string are falsy, objects are truthy.\<close>

fun truthy_arg :: "source_arg \<Rightarrow> bool" where
  "truthy_arg ArgUndefined = False"
| "truthy_arg (ArgString s) = (s \<noteq> [])"
| "truthy_arg (ArgRequest r) = True"
| "truthy_arg (ArgFile f) = True"
| "truthy_arg (ArgFileHandle h) = True"

fun truthy_str :: "string option \<Rightarrow> bool" where
  "truthy_str None = False"
| "truthy_str (Some s) = (s \<noteq> [])"

text \<open>
  The values thrown by book.js are strings; they are named here after the kinds of section 7
  of the specification:
  \<^item> \<open>InvalidNameError\<close>: \<open>Book name was invalid in constructor.\<close>
  \<^item> \<open>InvalidStateError\<close>: \<open>Cannot try to load via ... when the Book is already loading or loaded\<close>
  \<^item> \<open>SourceMismatchError\<close>: \<open>URI for book was not set from loadFromXhr()\<close>,
    \<open>Request for book was not set in loadFromFetch()\<close>, \<open>URI for book was set in ...\<close>,
    \<open>Neither file nor fileHandle was set inside Book constructor.\<close>,
    \<open>Could not load Book: no URI or File or FileHandle\<close>
  \<^item> \<open>NotBoundError\<close>: \<open>Cannot call getMIMEType() without a BookBinder\<close>
  \<^item> \<open>DoubleBindError\<close>: \<open>Called startBookBinding() when we already started binding!\<close>
  \<^item> \<open>NoChunkError\<close>: \<open>Could not get one chunk from fetch()\<close>
  \<^item> \<open>TypeError\<close>: a property read on \<open>null\<close> or \<open>undefined\<close>
  \<^item> \<open>TransportError\<close>, \<open>ProducerError\<close>, \<open>BinderCreationError\<close>: failures of the
    collaborators (fetch, XHR, file handle; the BookPump; the binder factory and \<open>start()\<close>).
\<close>
datatype error =
    InvalidNameError
  | InvalidStateError
  | SourceMismatchError
  | NotBoundError
  | DoubleBindError
  | NoChunkError
  | TypeError
  | TransportError
  | ProducerError
  | BinderCreationError

text \<open>A JavaScript value that may be \<open>undefined\<close> or \<open>null\<close>.\<close>
datatype 'a js = Undefined | Null | Val 'a

text \<open>
  A JavaScript number, as far as \<open>getPage\<close> can tell numbers apart: a finite number (its
  exact value), \<open>NaN\<close> and the two infinities.
\<close>
datatype number = Num real | NaN | PosInfinity | NegInfinity

text \<open>\<open>x < n\<close> and \<open>x >= n\<close> of JavaScript for an integer \<open>n\<close>: false on \<open>NaN\<close>.\<close>

fun js_lt :: "number \<Rightarrow> int \<Rightarrow> bool" where
  "js_lt (Num r) n = (r < of_int n)"
| "js_lt NaN n = False"
| "js_lt PosInfinity n = False"
| "js_lt NegInfinity n = True"

fun js_ge :: "number \<Rightarrow> int \<Rightarrow> bool" where
  "js_ge (Num r) n = (r \<ge> of_int n)"
| "js_ge NaN n = False"
| "js_ge PosInfinity n = True"
| "js_ge NegInfinity n = False"

text \<open>
  \<open>xs[i]\<close> of JavaScript on an array: the element when \<open>i\<close> is an integer index of the
  array, \<open>undefined\<close> for every other key (no throw).
\<close>
fun js_index :: "'a list \<Rightarrow> number \<Rightarrow> 'a js" where
  "js_index xs (Num r) =
     (if 0 \<le> r \<and> of_int \<lfloor>r\<rfloor> = r \<and> nat \<lfloor>r\<rfloor> < length xs then Val (xs ! nat \<lfloor>r\<rfloor>)
      else Undefined)"
| "js_index xs NaN = Undefined"
| "js_index xs PosInfinity = Undefined"
| "js_index xs NegInfinity = Undefined"

subsection \<open>The collaborators\<close>

text \<open>
  Modelled from the spec: the BookBinder of book-binder.js, which is not among the sources.
  Section 6 of the specification gives its surface: the synchronous queries \<open>getBookType\<close>,
  \<open>getMIMEType\<close>, \<open>getLoadingPercentage\<close>, \<open>getUnarchivingPercentage\<close>,
  \<open>getLayoutPercentage\<close>, and \<open>appendBytes(chunk)\<close>, which feeds one more chunk after the
  initial bytes handed to the factory. A binder is the answers to its queries (chosen by the
  environment when the factory resolves) and the record of what it has been fed:
  \<open>bb_initial\<close> and, in call order, the chunks of \<open>appendBytes\<close>. No operation of a
  BookBinder is taken to throw, or to detach a buffer it is handed.
\<close>
record BookBinder =
  bb_name :: string
  bb_initial :: ArrayBuffer
  bb_expectedSize :: int
  bb_appended :: "ArrayBuffer list"
  bb_bookType :: nat
  bb_mimeType :: string
  bb_loadingPercentage :: rat
  bb_unarchivingPercentage :: rat
  bb_layoutPercentage :: rat

text \<open>What the environment decides when \<open>createBookBinderAsync\<close> resolves.\<close>
record binder_info =
  bi_bookType :: nat
  bi_mimeType :: string
  bi_loadingPercentage :: rat
  bi_unarchivingPercentage :: rat
  bi_layoutPercentage :: rat

definition binder_appendBytes :: "ArrayBuffer \<Rightarrow> BookBinder \<Rightarrow> BookBinder" where
  "binder_appendBytes chunk bd = bd\<lparr>bb_appended := bb_appended bd @ [chunk]\<rparr>"

definition setNewExpectedSize :: "int \<Rightarrow> int \<Rightarrow> BookBinder \<Rightarrow> BookBinder" where
  "setNewExpectedSize loaded tot bd = bd\<lparr>bb_expectedSize := tot\<rparr>"

text \<open>Everything a binder has been fed, in order.\<close>
definition binder_fed :: "BookBinder \<Rightarrow> ArrayBuffer list" where
  "binder_fed bd = bb_initial bd # bb_appended bd"

text \<open>
  Modelled from the spec: BookMetadata of metadata/book-metadata.js, which is not among the
  sources. A metadata object is a record typed by the kind of the book; \<open>createEmptyMetadata\<close>
  gives the empty record of a kind (section 4.2, step 5).
\<close>
record BookMetadata =
  md_bookType :: nat
  md_tags :: "(string \<times> string) list"

definition createEmptyMetadata :: "nat \<Rightarrow> BookMetadata" where
  "createEmptyMetadata bookType = \<lparr>md_bookType = bookType, md_tags = []\<rparr>"

text \<open>The events a Book dispatches to its subscribers (book-events.js).\<close>
datatype BookEvent =
    BookLoadingStartedEvent
  | BookProgressEvent "int option" "string option"
  | BookPageExtractedEvent Page int
  | BookLoadingCompleteEvent
  | BookBindingCompleteEvent

text \<open>The events of a binder that a Book subscribes to.\<close>
datatype binder_event =
    BINDING_COMPLETE
  | METADATA_XML_EXTRACTED BookMetadata
  | PAGE_EXTRACTED Page int
  | PROGRESS "int option" "string option"

text \<open>
  The events of a BookPump, as \<open>handleBookPumpEvents\<close> reads them: the type and, on
  \<open>BOOKPUMP_DATA_RECEIVED\<close>, the fields \<open>ab\<close> (the address of the chunk) and
  \<open>totalExpectedSize\<close>.
\<close>
datatype pump_event =
    BOOKPUMP_DATA_RECEIVED addr int
  | BOOKPUMP_END

subsection \<open>The Book\<close>

text \<open>
  The private fields, under their names in book.js (\<open>#file\<close> is \<open>fileObject\<close>:
  \<open>file\<close> is a keyword of Isabelle).
\<close>
record Book =
  name :: string
  request :: "Request option"
  uri :: "string option"
  fileObject :: "File option"
  fileHandle :: source_arg
  arrayBuffer :: "addr option"
  bookBinder :: "BookBinder option"
  bookContainer :: "string option"
  bookMetadata :: "addr option"
  expectedSize :: int
  finishedBinding :: bool
  finishedLoading :: bool
  needsLoading :: bool
  pages :: "Page list"
  startedBinding :: bool
  totalPages :: int

text \<open>
  The constructor. \<open>fileHandle\<close> takes the argument whenever none of \<open>uri\<close>, \<open>request\<close>,
  \<open>file\<close> is truthy: also \<open>undefined\<close>, and the empty string.
\<close>
definition new_Book :: "string \<Rightarrow> source_arg \<Rightarrow> string option \<Rightarrow> int \<Rightarrow> error + Book" where
  "new_Book nm uriRequestOrFileHandle container expSize =
     (if nm = [] then Inl InvalidNameError
      else
        let u = (case uriRequestOrFileHandle of ArgString s \<Rightarrow> Some s | _ \<Rightarrow> None);
            r = (case uriRequestOrFileHandle of ArgRequest q \<Rightarrow> Some q | _ \<Rightarrow> None);
            f = (case uriRequestOrFileHandle of ArgFile x \<Rightarrow> Some x | _ \<Rightarrow> None);
            h = (if \<not> truthy_str u \<and> r = None \<and> f = None then uriRequestOrFileHandle
                 else ArgUndefined)
        in Inr \<lparr>name = nm, request = r, uri = u, fileObject = f, fileHandle = h,
                arrayBuffer = None, bookBinder = None, bookContainer = container,
                bookMetadata = None, expectedSize = expSize, finishedBinding = False,
                finishedLoading = False, needsLoading = True, pages = [],
                startedBinding = False, totalPages = 0\<rparr>)"

subsection \<open>The world: the Book, its heap and its suspended computations\<close>

text \<open>Where the load that passed the \<open>needsLoading\<close> guard is suspended.\<close>
datatype loader_state =
    NoLoader
  | XhrSent
  | FetchAwaitResponse
  | FetchAwaitFirstChunk
  | FetchAwaitBinding
  | FetchAwaitNextChunk
  | FetchAwaitBody
  | FetchAwaitBindingWhole
  | FileAwaitHandle
  | FileReading string
  | PumpListening string
  | LoaderDone

text \<open>The promise a load returned.\<close>
datatype outcome = NotCalled | Pending | Fulfilled | Rejected error

text \<open>
  Where \<open>#startBookBinding\<close> is suspended: at \<open>await createBookBinderAsync(...)\<close> (with the
  arguments of the factory), at \<open>await bookBinder.start()\<close> (with the binder), or over.
\<close>
datatype binding_state =
    NotBinding
  | AwaitCreate string addr int
  | AwaitStart BookBinder
  | BindResolved
  | BindRejected error

text \<open>
  The local \<open>bookBinderPromise\<close> of \<open>loadFromBookPump\<close>: the promise of the binding pipeline
  (\<open>Linked\<close>: settled when the pipeline is), or a promise already rejected when
  \<open>#startBookBinding\<close> threw before its first \<open>await\<close>.
\<close>
datatype promise = Linked | Dead

record world =
  book :: Book
  buffers :: "ArrayBuffer list"
  metadatas :: "BookMetadata list"
  dispatched :: "BookEvent list"
  loader :: loader_state
  outcome :: outcome
  binding :: binding_state
  subscribed :: bool
  bookBinderPromise :: "promise option"
  reactions :: "pump_event list"
  chunkByChunk :: bool

text \<open>
  \<open>buffers\<close> and \<open>metadatas\<close> are the heap: an object is allocated at the end of its store
  and its address is its index. \<open>dispatched\<close> is what \<open>dispatchEvent\<close> has sent, in order.
  \<open>reactions\<close> are the callbacks registered with \<open>bookBinderPromise.then\<close>, in
  registration order, each with the event it closes over. \<open>chunkByChunk\<close> is
  \<open>Params['fetchMode'] === 'chunkByChunk'\<close> (common/helpers.js).
\<close>

definition boot :: "bool \<Rightarrow> Book \<Rightarrow> world" where
  "boot cbc b = \<lparr>book = b, buffers = [], metadatas = [], dispatched = [], loader = NoLoader,
                 outcome = NotCalled, binding = NotBinding, subscribed = False,
                 bookBinderPromise = None, reactions = [],
                 chunkByChunk = cbc\<rparr>"

definition alloc_buffer :: "ArrayBuffer \<Rightarrow> world \<Rightarrow> addr \<times> world" where
  "alloc_buffer bytes w = (length (buffers w), w\<lparr>buffers := buffers w @ [bytes]\<rparr>)"

definition alloc_metadata :: "BookMetadata \<Rightarrow> world \<Rightarrow> addr \<times> world" where
  "alloc_metadata m w = (length (metadatas w), w\<lparr>metadatas := metadatas w @ [m]\<rparr>)"

definition dispatchEvent :: "BookEvent \<Rightarrow> world \<Rightarrow> world" where
  "dispatchEvent e w = w\<lparr>dispatched := dispatched w @ [e]\<rparr>"

text \<open>Settling the promise of the load: a promise is settled once.\<close>
definition settle :: "outcome \<Rightarrow> world \<Rightarrow> world" where
  "settle r w = (if outcome w = Pending then w\<lparr>outcome := r\<rparr> else w)"

text \<open>The bytes of the Book: the contents of \<open>getArrayBuffer()\<close>, if there is a buffer.\<close>
definition book_bytes :: "world \<Rightarrow> ArrayBuffer option" where
  "book_bytes w = map_option (\<lambda>a. buffers w ! a) (arrayBuffer (book w))"

subsection \<open>The synchronous methods\<close>

text \<open>
  \<open>appendBytes\<close>: a new Uint8Array of the two lengths, the old bytes at 0, the new ones
  after them; its buffer becomes \<open>#arrayBuffer\<close>. Reading \<open>byteLength\<close> of the \<open>null\<close>
  of a Book without a buffer throws.
\<close>
definition appendBytes :: "addr \<Rightarrow> world \<Rightarrow> (error + unit) \<times> world" where
  "appendBytes appendBuffer w =
     (case arrayBuffer (book w) of
        None \<Rightarrow> (Inl TypeError, w)
      | Some old \<Rightarrow>
          let (newBuffer, w1) = alloc_buffer (buffers w ! old @ buffers w ! appendBuffer) w
          in (Inr (), w1\<lparr>book := (book w1)\<lparr>arrayBuffer := Some newBuffer\<rparr>\<rparr>))"

definition getArrayBuffer :: "Book \<Rightarrow> addr option" where
  "getArrayBuffer b = arrayBuffer b"

definition getMetadata :: "Book \<Rightarrow> addr option" where
  "getMetadata b = bookMetadata b"

definition getMIMEType :: "Book \<Rightarrow> error + string" where
  "getMIMEType b =
     (case bookBinder b of None \<Rightarrow> Inl NotBoundError | Some bd \<Rightarrow> Inr (bb_mimeType bd))"

definition getLoadingPercentage :: "Book \<Rightarrow> error + rat" where
  "getLoadingPercentage b =
     (case bookBinder b of None \<Rightarrow> Inr 0 | Some bd \<Rightarrow> Inr (bb_loadingPercentage bd))"

definition getUnarchivingPercentage :: "Book \<Rightarrow> error + rat" where
  "getUnarchivingPercentage b =
     (case bookBinder b of None \<Rightarrow> Inr 0 | Some bd \<Rightarrow> Inr (bb_unarchivingPercentage bd))"

definition getLayoutPercentage :: "Book \<Rightarrow> error + rat" where
  "getLayoutPercentage b =
     (case bookBinder b of None \<Rightarrow> Inr 0 | Some bd \<Rightarrow> Inr (bb_layoutPercentage bd))"

definition getNumberOfPages :: "Book \<Rightarrow> int" where
  "getNumberOfPages b = totalPages b"

definition getNumberOfPagesReady :: "Book \<Rightarrow> int" where
  "getNumberOfPagesReady b = int (length (pages b))"

text \<open>
  \<open>getPage\<close>. Its local \<open>numPages\<close> is \<open>this.#totalPages || this.#pages.length\<close>: the
  total when it is not 0, the number of extracted pages otherwise.
\<close>
definition numPages :: "Book \<Rightarrow> int" where
  "numPages b = (if totalPages b \<noteq> 0 then totalPages b else int (length (pages b)))"

definition getPage :: "Book \<Rightarrow> number \<Rightarrow> Page js" where
  "getPage b i = (if js_lt i 0 \<or> js_ge i (numPages b) then Null else js_index (pages b) i)"

definition isFinishedBinding :: "Book \<Rightarrow> bool" where
  "isFinishedBinding b = finishedBinding b"

definition isFinishedLoading :: "Book \<Rightarrow> bool" where
  "isFinishedLoading b = finishedLoading b"

text \<open>
  Modelled from the spec: \<open>BookMetadata.clone()\<close> of metadata/book-metadata.js, which is
  not among the sources. Section 4.1 of the specification: \<open>setMetadata\<close> stores an
  independent deep copy; so \<open>clone\<close> allocates a new object with the contents of its
  receiver.
\<close>
definition clone :: "addr \<Rightarrow> world \<Rightarrow> addr \<times> world" where
  "clone m w = alloc_metadata (metadatas w ! m) w"

definition setMetadata :: "addr \<Rightarrow> world \<Rightarrow> world" where
  "setMetadata metadata w =
     (let (c, w1) = clone metadata w in w1\<lparr>book := (book w1)\<lparr>bookMetadata := Some c\<rparr>\<rparr>)"

subsection \<open>The binding pipeline\<close>

text \<open>
  \<open>#startBookBinding\<close> up to its first \<open>await\<close>: the guard, the latch, the copy of the
  bytes, the call of the factory. \<open>ab\<close> is \<open>None\<close> when the caller passes \<open>undefined\<close>
  (\<open>evt.ab\<close> of an event without bytes); \<open>ab.byteLength\<close> then throws after the latch is
  set. The function is \<open>async\<close>: a throw rejects the promise it returns.
\<close>
definition startBookBinding :: "string \<Rightarrow> addr option \<Rightarrow> int \<Rightarrow> world \<Rightarrow> (error + unit) \<times> world" where
  "startBookBinding fileNameOrUri ab totalExpectedSize w =
     (if startedBinding (book w) then (Inl DoubleBindError, w)
      else
        let w1 = w\<lparr>book := (book w)\<lparr>startedBinding := True\<rparr>\<rparr> in
        case ab of
          None \<Rightarrow> (Inl TypeError, w1\<lparr>binding := BindRejected TypeError\<rparr>)
        | Some a \<Rightarrow>
            let (copiedArr, w2) = alloc_buffer (buffers w1 ! a) w1;
                w3 = w2\<lparr>book := (book w2)\<lparr>arrayBuffer := Some copiedArr\<rparr>\<rparr>
            in (Inr (), w3\<lparr>binding := AwaitCreate fileNameOrUri a totalExpectedSize\<rparr>))"

text \<open>The end of a load: \<open>#finishedLoading = true\<close>, the event, the promise resolved.\<close>
definition finish_loading :: "world \<Rightarrow> world" where
  "finish_loading w =
     settle Fulfilled
       (dispatchEvent BookLoadingCompleteEvent
          (w\<lparr>book := (book w)\<lparr>finishedLoading := True\<rparr>\<rparr>))"

text \<open>A load that throws in its asynchronous part: its promise is rejected, it goes no further.\<close>
definition fail_loading :: "error \<Rightarrow> world \<Rightarrow> world" where
  "fail_loading e w = settle (Rejected e) (w\<lparr>loader := LoaderDone\<rparr>)"

text \<open>
  \<open>createBookBinderAsync\<close> has resolved: the metadata of the kind of the book, the four
  listeners, the call of \<open>start()\<close>.
\<close>
definition binder_created :: "binder_info \<Rightarrow> world \<Rightarrow> world" where
  "binder_created info w =
     (case binding w of
        AwaitCreate fileNameOrUri ab totalExpectedSize \<Rightarrow>
          let bd = \<lparr>bb_name = fileNameOrUri, bb_initial = buffers w ! ab,
                    bb_expectedSize = totalExpectedSize, bb_appended = [],
                    bb_bookType = bi_bookType info, bb_mimeType = bi_mimeType info,
                    bb_loadingPercentage = bi_loadingPercentage info,
                    bb_unarchivingPercentage = bi_unarchivingPercentage info,
                    bb_layoutPercentage = bi_layoutPercentage info\<rparr>;
              (m, w1) = alloc_metadata (createEmptyMetadata (bb_bookType bd)) w;
              w2 = w1\<lparr>book := (book w1)\<lparr>bookMetadata := Some m\<rparr>\<rparr>
          in w2\<lparr>subscribed := True, binding := AwaitStart bd\<rparr>
      | _ \<Rightarrow> w)"

text \<open>
  The binding pipeline has failed at one of its two \<open>await\<close>s: its promise is rejected, and
  a \<open>loadFromFetch\<close> that awaits it throws.
\<close>
definition binding_failed :: "world \<Rightarrow> world" where
  "binding_failed w =
     (let w1 = w\<lparr>binding := BindRejected BinderCreationError\<rparr>
      in if loader w = FetchAwaitBinding \<or> loader w = FetchAwaitBindingWhole
         then fail_loading BinderCreationError w1 else w1)"

definition binder_create_failed :: "world \<Rightarrow> world" where
  "binder_create_failed w =
     (case binding w of AwaitCreate fileNameOrUri ab totalExpectedSize \<Rightarrow> binding_failed w
      | _ \<Rightarrow> w)"

definition binder_start_failed :: "world \<Rightarrow> world" where
  "binder_start_failed w = (case binding w of AwaitStart bd \<Rightarrow> binding_failed w | _ \<Rightarrow> w)"

text \<open>
  \<open>start()\<close> has resolved: \<open>#bookBinder\<close> is set and the promise of the pipeline is
  fulfilled. A \<open>loadFromFetch\<close> that awaits it goes on: to its next chunk, or to its end.
\<close>
definition binder_started :: "world \<Rightarrow> world" where
  "binder_started w =
     (case binding w of
        AwaitStart bd \<Rightarrow>
          let w1 = w\<lparr>book := (book w)\<lparr>bookBinder := Some bd\<rparr>, binding := BindResolved\<rparr>
          in if loader w = FetchAwaitBinding then w1\<lparr>loader := FetchAwaitNextChunk\<rparr>
             else if loader w = FetchAwaitBindingWhole
             then finish_loading (w1\<lparr>loader := LoaderDone\<rparr>)
             else w1
      | _ \<Rightarrow> w)"

text \<open>The four listeners on the binder. They are called once they are subscribed.\<close>
definition binder_event :: "binder_event \<Rightarrow> world \<Rightarrow> world" where
  "binder_event evt w =
     (if \<not> subscribed w then w
      else case evt of
        BINDING_COMPLETE \<Rightarrow>
          dispatchEvent BookBindingCompleteEvent
            (w\<lparr>book := (book w)\<lparr>finishedBinding := True\<rparr>\<rparr>)
      | METADATA_XML_EXTRACTED md \<Rightarrow>
          let (m, w1) = alloc_metadata md w
          in w1\<lparr>book := (book w1)\<lparr>bookMetadata := Some m\<rparr>\<rparr>
      | PAGE_EXTRACTED page pageNum \<Rightarrow>
          dispatchEvent (BookPageExtractedEvent page pageNum)
            (w\<lparr>book := (book w)\<lparr>pages := pages (book w) @ [page]\<rparr>\<rparr>)
      | PROGRESS evtTotalPages message \<Rightarrow>
          let w1 = (case evtTotalPages of
                      Some n \<Rightarrow> if n \<noteq> 0 then w\<lparr>book := (book w)\<lparr>totalPages := n\<rparr>\<rparr> else w
                    | None \<Rightarrow> w)
          in dispatchEvent (BookProgressEvent evtTotalPages message) w1)"

subsection \<open>The loaders\<close>

text \<open>
  Each loader up to its first suspension. The guards come first, in the order of the source;
  a loader that passes them clears \<open>#needsLoading\<close>.
\<close>

definition loadFromXhr :: "world \<Rightarrow> (error + unit) \<times> world" where
  "loadFromXhr w =
     (if \<not> needsLoading (book w) then (Inl InvalidStateError, w)
      else if \<not> truthy_str (uri (book w)) then (Inl SourceMismatchError, w)
      else
        let w1 = w\<lparr>book := (book w)\<lparr>needsLoading := False\<rparr>\<rparr>;
            w2 = dispatchEvent BookLoadingStartedEvent w1
        in (Inr (), w2\<lparr>loader := XhrSent, outcome := Pending\<rparr>))"

definition loadFromFetch :: "world \<Rightarrow> (error + unit) \<times> world" where
  "loadFromFetch w =
     (if \<not> needsLoading (book w) then (Inl InvalidStateError, w)
      else if request (book w) = None then (Inl SourceMismatchError, w)
      else
        let w1 = w\<lparr>book := (book w)\<lparr>needsLoading := False\<rparr>\<rparr>;
            w2 = dispatchEvent BookLoadingStartedEvent w1
        in (Inr (), w2\<lparr>loader := FetchAwaitResponse, outcome := Pending\<rparr>))"

text \<open>
  \<open>loadFromFile\<close>: with a File it goes on to the FileReader at once; with a file handle it
  first awaits \<open>getFile()\<close>. The started event comes after that \<open>await\<close>.
\<close>
definition loadFromFile :: "world \<Rightarrow> (error + unit) \<times> world" where
  "loadFromFile w =
     (if \<not> needsLoading (book w) then (Inl InvalidStateError, w)
      else if truthy_str (uri (book w)) then (Inl SourceMismatchError, w)
      else if fileObject (book w) = None \<and> \<not> truthy_arg (fileHandle (book w))
        then (Inl SourceMismatchError, w)
      else
        let w1 = w\<lparr>book := (book w)\<lparr>needsLoading := False\<rparr>\<rparr> in
        case fileObject (book w) of
          Some f \<Rightarrow>
            (Inr (), (dispatchEvent BookLoadingStartedEvent w1)
                        \<lparr>loader := FileReading (file_name f), outcome := Pending\<rparr>)
        | None \<Rightarrow> (Inr (), w1\<lparr>loader := FileAwaitHandle, outcome := Pending\<rparr>))"

text \<open>
  \<open>loadFromArrayBuffer\<close>: the pipeline is started and not awaited; the load is finished in
  the same call.
\<close>
definition loadFromArrayBuffer :: "string \<Rightarrow> addr \<Rightarrow> world \<Rightarrow> (error + unit) \<times> world" where
  "loadFromArrayBuffer fileName ab w =
     (if \<not> needsLoading (book w) then (Inl InvalidStateError, w)
      else if truthy_str (uri (book w)) then (Inl SourceMismatchError, w)
      else
        let w1 = w\<lparr>book := (book w)\<lparr>needsLoading := False\<rparr>\<rparr>;
            w2 = dispatchEvent BookLoadingStartedEvent w1;
            w3 = snd (startBookBinding fileName (Some ab) (int (length (buffers w2 ! ab))) w2)
        in (Inr (), finish_loading (w3\<lparr>loader := LoaderDone, outcome := Pending\<rparr>)))"

text \<open>
  \<open>loadFromBookPump\<close>: the guards, the latch, the listeners. No event is dispatched here.
\<close>
definition loadFromBookPump :: "string \<Rightarrow> world \<Rightarrow> (error + unit) \<times> world" where
  "loadFromBookPump bookUri w =
     (if \<not> needsLoading (book w) then (Inl InvalidStateError, w)
      else if truthy_str (uri (book w)) then (Inl SourceMismatchError, w)
      else
        let w1 = w\<lparr>book := (book w)\<lparr>needsLoading := False\<rparr>\<rparr>
        in (Inr (), w1\<lparr>loader := PumpListening bookUri, outcome := Pending,
                         bookBinderPromise := None\<rparr>))"

definition load :: "world \<Rightarrow> (error + unit) \<times> world" where
  "load w =
     (if request (book w) \<noteq> None then loadFromFetch w
      else if truthy_str (uri (book w)) then loadFromXhr w
      else if fileObject (book w) \<noteq> None \<or> truthy_arg (fileHandle (book w)) then loadFromFile w
      else (Inl SourceMismatchError, w))"

subsection \<open>The continuations of the loaders\<close>

text \<open>
  What each loader does when the environment wakes it. A continuation runs only where its
  loader is suspended; anywhere else the event cannot occur and the world is left as it is.
  A chunk that arrives is first an object of the heap (\<open>alloc_buffer\<close>).
\<close>

text \<open>\<open>xhr.onprogress\<close>.\<close>
definition xhr_progress :: "int \<Rightarrow> int \<Rightarrow> world \<Rightarrow> world" where
  "xhr_progress loaded tot w =
     (if loader w \<noteq> XhrSent then w
      else case bookBinder (book w) of
        None \<Rightarrow> w
      | Some bd \<Rightarrow>
          let w1 = (if expectedSize (book w) = - 1 \<and> tot \<noteq> 0
                    then w\<lparr>book := (book w)\<lparr>expectedSize := tot,
                                bookBinder := Some (setNewExpectedSize loaded tot bd)\<rparr>\<rparr>
                    else w)
          in dispatchEvent (BookProgressEvent (Some (int (length (pages (book w1))))) None) w1)"

text \<open>\<open>xhr.onload\<close>: the pipeline is started and not awaited.\<close>
definition xhr_load :: "ArrayBuffer \<Rightarrow> world \<Rightarrow> world" where
  "xhr_load bytes w =
     (if loader w \<noteq> XhrSent then w
      else
        let (ab, w1) = alloc_buffer bytes w;
            u = (case uri (book w1) of Some x \<Rightarrow> x | None \<Rightarrow> []);
            w2 = snd (startBookBinding u (Some ab) (expectedSize (book w1)) w1)
        in finish_loading (w2\<lparr>loader := LoaderDone\<rparr>))"

text \<open>\<open>xhr.onerror\<close>.\<close>
definition xhr_error :: "world \<Rightarrow> world" where
  "xhr_error w = (if loader w \<noteq> XhrSent then w else fail_loading TransportError w)"

text \<open>\<open>await fetch(request)\<close> has resolved, or has thrown.\<close>
definition fetch_response :: "world \<Rightarrow> world" where
  "fetch_response w =
     (if loader w \<noteq> FetchAwaitResponse then w
      else w\<lparr>loader := (if chunkByChunk w then FetchAwaitFirstChunk else FetchAwaitBody)\<rparr>)"

definition fetch_failed :: "world \<Rightarrow> world" where
  "fetch_failed w = (if loader w \<noteq> FetchAwaitResponse then w else fail_loading TransportError w)"

text \<open>
  \<open>await getOneChunk()\<close> has resolved: with a chunk, or with \<open>null\<close> when the reader is done.
  The first chunk starts the pipeline, which is awaited; every later chunk is appended to the
  Book and then to the binder.
\<close>
definition chunk_read :: "ArrayBuffer option \<Rightarrow> world \<Rightarrow> world" where
  "chunk_read r w =
     (if loader w = FetchAwaitFirstChunk then
        (case r of
           None \<Rightarrow> fail_loading NoChunkError w
         | Some bytes \<Rightarrow>
             let (firstChunk, w1) = alloc_buffer bytes w;
                 (res, w2) = startBookBinding (name (book w1)) (Some firstChunk)
                               (expectedSize (book w1)) w1
             in case res of
                  Inl e \<Rightarrow> fail_loading e w2
                | Inr u \<Rightarrow> w2\<lparr>loader := FetchAwaitBinding\<rparr>)
      else if loader w = FetchAwaitNextChunk then
        (case r of
           None \<Rightarrow> finish_loading (w\<lparr>loader := LoaderDone\<rparr>)
         | Some bytes \<Rightarrow>
             let (nextChunk, w1) = alloc_buffer bytes w;
                 (res, w2) = appendBytes nextChunk w1
             in case res of
                  Inl e \<Rightarrow> fail_loading e w2
                | Inr u \<Rightarrow>
                    (case bookBinder (book w2) of
                       None \<Rightarrow> fail_loading TypeError w2
                     | Some bd \<Rightarrow>
                         w2\<lparr>book := (book w2)\<lparr>bookBinder :=
                              Some (binder_appendBytes (buffers w2 ! nextChunk) bd)\<rparr>\<rparr>))
      else w)"

text \<open>\<open>reader.read()\<close> has thrown.\<close>
definition chunk_failed :: "world \<Rightarrow> world" where
  "chunk_failed w =
     (if loader w = FetchAwaitFirstChunk \<or> loader w = FetchAwaitNextChunk
      then fail_loading TransportError w else w)"

text \<open>\<open>await response.arrayBuffer()\<close> has resolved: the pipeline is started and awaited.\<close>
definition body_read :: "ArrayBuffer \<Rightarrow> world \<Rightarrow> world" where
  "body_read bytes w =
     (if loader w \<noteq> FetchAwaitBody then w
      else
        let (ab, w1) = alloc_buffer bytes w;
            (res, w2) = startBookBinding (name (book w1)) (Some ab) (expectedSize (book w1)) w1
        in case res of
             Inl e \<Rightarrow> fail_loading e w2
           | Inr u \<Rightarrow> w2\<lparr>loader := FetchAwaitBindingWhole\<rparr>)"

text \<open>\<open>await this.#fileHandle.getFile()\<close> has resolved, or has thrown.\<close>
definition file_handle_resolved :: "File \<Rightarrow> world \<Rightarrow> world" where
  "file_handle_resolved f w =
     (if loader w \<noteq> FileAwaitHandle then w
      else (dispatchEvent BookLoadingStartedEvent w)\<lparr>loader := FileReading (file_name f)\<rparr>)"

definition file_handle_failed :: "world \<Rightarrow> world" where
  "file_handle_failed w = (if loader w \<noteq> FileAwaitHandle then w else fail_loading TransportError w)"

text \<open>\<open>fr.onload\<close>: the pipeline is started and not awaited.\<close>
definition file_read :: "ArrayBuffer \<Rightarrow> world \<Rightarrow> world" where
  "file_read bytes w =
     (case loader w of
        FileReading fname \<Rightarrow>
          let (ab, w1) = alloc_buffer bytes w;
              w2 = snd (startBookBinding fname (Some ab) (int (length (buffers w1 ! ab))) w1)
          in finish_loading (w2\<lparr>loader := LoaderDone\<rparr>)
      | _ \<Rightarrow> w)"

subsection \<open>The BookPump\<close>

text \<open>
  \<open>handleBookPumpEvents\<close>, the listener of both \<open>BOOKPUMP_DATA_RECEIVED\<close> and
  \<open>BOOKPUMP_END\<close>. Without a \<open>bookBinderPromise\<close> it starts the pipeline with \<open>evt.ab\<close>
  and \<open>evt.totalExpectedSize\<close> (both \<open>undefined\<close> on an end event; the size is then never
  read) and keeps the promise; with one, it registers a reaction on it.
\<close>
definition handleBookPumpEvents :: "string \<Rightarrow> pump_event \<Rightarrow> world \<Rightarrow> world" where
  "handleBookPumpEvents bookUri evt w =
     (case bookBinderPromise w of
        None \<Rightarrow>
          let (res, w1) = (case evt of
                             BOOKPUMP_DATA_RECEIVED ab totalExpectedSize \<Rightarrow>
                               startBookBinding bookUri (Some ab) totalExpectedSize w
                           | BOOKPUMP_END \<Rightarrow> startBookBinding bookUri None 0 w)
          in w1\<lparr>bookBinderPromise := Some (case res of Inl e \<Rightarrow> Dead | Inr u \<Rightarrow> Linked)\<rparr>
      | Some p \<Rightarrow> w\<lparr>reactions := reactions w @ [evt]\<rparr>)"

text \<open>The pump dispatches an event; the listener is there while the load listens.\<close>
definition pump_data_received :: "ArrayBuffer \<Rightarrow> int \<Rightarrow> world \<Rightarrow> world" where
  "pump_data_received bytes totalExpectedSize w =
     (case loader w of
        PumpListening bookUri \<Rightarrow>
          let (ab, w1) = alloc_buffer bytes w
          in handleBookPumpEvents bookUri (BOOKPUMP_DATA_RECEIVED ab totalExpectedSize) w1
      | _ \<Rightarrow> w)"

definition pump_end :: "world \<Rightarrow> world" where
  "pump_end w =
     (case loader w of
        PumpListening bookUri \<Rightarrow> handleBookPumpEvents bookUri BOOKPUMP_END w
      | _ \<Rightarrow> w)"

text \<open>\<open>BOOKPUMP_ERROR\<close>: the promise of the load is rejected; the listeners stay.\<close>
definition pump_error :: "world \<Rightarrow> world" where
  "pump_error w =
     (case loader w of PumpListening bookUri \<Rightarrow> settle (Rejected ProducerError) w | _ \<Rightarrow> w)"

text \<open>
  One reaction of \<open>bookBinderPromise\<close> runs: the oldest one, once the promise is fulfilled
  (reactions on one promise run in the order of their registration, each to its end; on a
  rejected promise they never run). On data: the chunk goes to the binder, then to the Book.
  On the end: the load is finished and the two listeners are removed.
\<close>
definition run_reaction :: "world \<Rightarrow> world" where
  "run_reaction w =
     (case reactions w of
        [] \<Rightarrow> w
      | evt # rest \<Rightarrow>
          if bookBinderPromise w = Some Linked \<and> binding w = BindResolved then
            let w1 = w\<lparr>reactions := rest\<rparr> in
            case evt of
              BOOKPUMP_DATA_RECEIVED ab totalExpectedSize \<Rightarrow>
                (case bookBinder (book w1) of
                   None \<Rightarrow> w1
                 | Some bd \<Rightarrow>
                     snd (appendBytes ab
                            (w1\<lparr>book := (book w1)\<lparr>bookBinder :=
                                  Some (binder_appendBytes (buffers w1 ! ab) bd)\<rparr>\<rparr>)))
            | BOOKPUMP_END \<Rightarrow> finish_loading (w1\<lparr>loader := LoaderDone\<rparr>)
          else w)"

subsection \<open>Executions\<close>

text \<open>
  Everything that can happen to a Book: a call of one of its methods by its owner, or an
  event of the environment that wakes a suspended computation. \<open>MutateMetadata\<close> is the
  owner of a metadata object writing to it.
\<close>
datatype action =
    CallLoad
  | CallLoadFromXhr
  | CallLoadFromFetch
  | CallLoadFromFile
  | CallLoadFromArrayBuffer string ArrayBuffer
  | CallLoadFromBookPump string
  | CallAppendBytes ArrayBuffer
  | CallSetMetadata addr
  | MutateMetadata addr BookMetadata
  | XhrProgress int int
  | XhrLoad ArrayBuffer
  | XhrError
  | FetchResponse
  | FetchFailed
  | ChunkRead "ArrayBuffer option"
  | ChunkFailed
  | BodyRead ArrayBuffer
  | FileHandleResolved File
  | FileHandleFailed
  | FileRead ArrayBuffer
  | PumpDataReceived ArrayBuffer int
  | PumpEnd
  | PumpError
  | BinderCreated binder_info
  | BinderCreateFailed
  | BinderStarted
  | BinderStartFailed
  | BinderEvent binder_event
  | RunReaction

fun step :: "action \<Rightarrow> world \<Rightarrow> world" where
  "step CallLoad w = snd (load w)"
| "step CallLoadFromXhr w = snd (loadFromXhr w)"
| "step CallLoadFromFetch w = snd (loadFromFetch w)"
| "step CallLoadFromFile w = snd (loadFromFile w)"
| "step (CallLoadFromArrayBuffer fileName bytes) w =
     (let (ab, w1) = alloc_buffer bytes w in snd (loadFromArrayBuffer fileName ab w1))"
| "step (CallLoadFromBookPump bookUri) w = snd (loadFromBookPump bookUri w)"
| "step (CallAppendBytes bytes) w =
     (let (ab, w1) = alloc_buffer bytes w in snd (appendBytes ab w1))"
| "step (CallSetMetadata m) w = (if m < length (metadatas w) then setMetadata m w else w)"
| "step (MutateMetadata m v) w =
     (if m < length (metadatas w) then w\<lparr>metadatas := (metadatas w)[m := v]\<rparr> else w)"
| "step (XhrProgress loaded tot) w = xhr_progress loaded tot w"
| "step (XhrLoad bytes) w = xhr_load bytes w"
| "step XhrError w = xhr_error w"
| "step FetchResponse w = fetch_response w"
| "step FetchFailed w = fetch_failed w"
| "step (ChunkRead r) w = chunk_read r w"
| "step ChunkFailed w = chunk_failed w"
| "step (BodyRead bytes) w = body_read bytes w"
| "step (FileHandleResolved f) w = file_handle_resolved f w"
| "step FileHandleFailed w = file_handle_failed w"
| "step (FileRead bytes) w = file_read bytes w"
| "step (PumpDataReceived bytes totalExpectedSize) w = pump_data_received bytes totalExpectedSize w"
| "step PumpEnd w = pump_end w"
| "step PumpError w = pump_error w"
| "step (BinderCreated info) w = binder_created info w"
| "step BinderCreateFailed w = binder_create_failed w"
| "step BinderStarted w = binder_started w"
| "step BinderStartFailed w = binder_start_failed w"
| "step (BinderEvent evt) w = binder_event evt w"
| "step RunReaction w = run_reaction w"

text \<open>An execution: the actions, one after the other. \<open>trace\<close> lists the worlds it visits.\<close>

fun exec :: "action list \<Rightarrow> world \<Rightarrow> world" where
  "exec [] w = w"
| "exec (a # as) w = exec as (step a w)"

fun trace :: "action list \<Rightarrow> world \<Rightarrow> world list" where
  "trace [] w = [w]"
| "trace (a # as) w = w # trace as (step a w)"

subsection \<open>What a source delivers\<close>

text \<open>
  The chunk an action hands to the load in flight, if it hands one: the buffer of a one-shot
  load, the response of the XHR, the body or a chunk of the fetch, the contents of the file,
  the bytes of a data event of the pump. An action delivers only where its loader waits for
  it. \<open>chunks\<close> lists what an execution delivers, in order.
\<close>
fun delivered :: "action \<Rightarrow> world \<Rightarrow> ArrayBuffer list" where
  "delivered (CallLoadFromArrayBuffer fileName bytes) w =
     (if needsLoading (book w) \<and> \<not> truthy_str (uri (book w)) then [bytes] else [])"
| "delivered (XhrLoad bytes) w = (if loader w = XhrSent then [bytes] else [])"
| "delivered (ChunkRead (Some bytes)) w =
     (if loader w = FetchAwaitFirstChunk \<or> loader w = FetchAwaitNextChunk then [bytes] else [])"
| "delivered (BodyRead bytes) w = (if loader w = FetchAwaitBody then [bytes] else [])"
| "delivered (FileRead bytes) w = (case loader w of FileReading fname \<Rightarrow> [bytes] | _ \<Rightarrow> [])"
| "delivered (PumpDataReceived bytes totalExpectedSize) w =
     (case loader w of PumpListening bookUri \<Rightarrow> [bytes] | _ \<Rightarrow> [])"
| "delivered a w = []"

fun chunks :: "action list \<Rightarrow> world \<Rightarrow> ArrayBuffer list" where
  "chunks [] w = []"
| "chunks (a # as) w = delivered a w @ chunks as (step a w)"

text \<open>The chunks of the data events whose reactions have not run yet, in order.\<close>
fun pending_chunks :: "ArrayBuffer list \<Rightarrow> pump_event list \<Rightarrow> ArrayBuffer list" where
  "pending_chunks bufs [] = []"
| "pending_chunks bufs (BOOKPUMP_DATA_RECEIVED ab totalExpectedSize # evts) =
     bufs ! ab # pending_chunks bufs evts"
| "pending_chunks bufs (BOOKPUMP_END # evts) = pending_chunks bufs evts"

text \<open>An execution in which nobody but the load calls \<open>appendBytes\<close> of the Book.\<close>
fun is_append :: "action \<Rightarrow> bool" where
  "is_append (CallAppendBytes bytes) = True"
| "is_append a = False"

section \<open>Invariants\<close>

text \<open>
  How the control state of a load and the state of the binding pipeline determine the latches
  and the references of the Book. A loader that has not reached the pipeline has not started
  it; the buffer exists exactly when the pipeline got past its copy; \<open>#bookBinder\<close> is set
  exactly when the pipeline is resolved; reactions exist only on a \<open>bookBinderPromise\<close>.
\<close>

fun pre_binding :: "loader_state \<Rightarrow> bool" where
  "pre_binding NoLoader = True"
| "pre_binding XhrSent = True"
| "pre_binding FetchAwaitResponse = True"
| "pre_binding FetchAwaitFirstChunk = True"
| "pre_binding FetchAwaitBody = True"
| "pre_binding FileAwaitHandle = True"
| "pre_binding (FileReading f) = True"
| "pre_binding l = False"

fun live :: "binding_state \<Rightarrow> bool" where
  "live (AwaitCreate n a sz) = True"
| "live (AwaitStart bd) = True"
| "live b = False"

fun has_bytes :: "binding_state \<Rightarrow> bool" where
  "has_bytes NotBinding = False"
| "has_bytes (BindRejected e) = (e \<noteq> TypeError)"
| "has_bytes b = True"

fun is_pump :: "loader_state \<Rightarrow> bool" where
  "is_pump (PumpListening u) = True"
| "is_pump l = False"

definition ctrl_ok :: "world \<Rightarrow> bool" where
  "ctrl_ok w = (
     startedBinding (book w) = (binding w \<noteq> NotBinding) \<and>
     (bookBinder (book w) = None) = (binding w \<noteq> BindResolved) \<and>
     (arrayBuffer (book w) = None) = (\<not> has_bytes (binding w)) \<and>
     (needsLoading (book w) \<longrightarrow> loader w = NoLoader) \<and>
     (pre_binding (loader w) \<longrightarrow> binding w = NotBinding) \<and>
     (bookBinderPromise w = None \<longrightarrow> reactions w = []) \<and>
     (binding w = NotBinding \<longrightarrow> bookBinderPromise w = None) \<and>
     (is_pump (loader w) \<and> bookBinderPromise w = None \<longrightarrow> binding w = NotBinding) \<and>
     (bookBinderPromise w \<noteq> None \<longrightarrow> is_pump (loader w) \<or> loader w = LoaderDone) \<and>
     (loader w = FetchAwaitBinding \<or> loader w = FetchAwaitBindingWhole \<longrightarrow> live (binding w)) \<and>
     (loader w = FetchAwaitNextChunk \<longrightarrow> binding w = BindResolved) \<and>
     (finishedLoading (book w) \<longrightarrow> has_bytes (binding w)))"

text \<open>The addresses the Book and its suspended computations hold are addresses of the heap.\<close>

fun valid_events :: "nat \<Rightarrow> pump_event list \<Rightarrow> bool" where
  "valid_events n [] = True"
| "valid_events n (BOOKPUMP_DATA_RECEIVED ab sz # evts) = (ab < n \<and> valid_events n evts)"
| "valid_events n (BOOKPUMP_END # evts) = valid_events n evts"

definition addrs_ok :: "world \<Rightarrow> bool" where
  "addrs_ok w = (
     (\<forall>a. arrayBuffer (book w) = Some a \<longrightarrow> a < length (buffers w)) \<and>
     (\<forall>n a sz. binding w = AwaitCreate n a sz \<longrightarrow> a < length (buffers w)) \<and>
     valid_events (length (buffers w)) (reactions w))"

text \<open>
  What the binder has been fed, followed by the chunks whose reactions are still to run, is
  what the source has delivered (\<open>rcv\<close>), in the order of delivery. The binder is the one the
  factory is asked for, the one awaiting \<open>start()\<close>, or \<open>#bookBinder\<close>.
\<close>
definition fed_ok :: "ArrayBuffer list \<Rightarrow> world \<Rightarrow> bool" where
  "fed_ok rcv w = (
     (binding w = NotBinding \<longrightarrow> rcv = []) \<and>
     (\<forall>n a sz. binding w = AwaitCreate n a sz \<longrightarrow>
        buffers w ! a # pending_chunks (buffers w) (reactions w) = rcv) \<and>
     (\<forall>bd. binding w = AwaitStart bd \<longrightarrow>
        binder_fed bd @ pending_chunks (buffers w) (reactions w) = rcv) \<and>
     (\<forall>bd. bookBinder (book w) = Some bd \<longrightarrow>
        binder_fed bd @ pending_chunks (buffers w) (reactions w) = rcv))"

text \<open>
  The bytes of the Book, followed by the chunks whose reactions are still to run, are the
  concatenation of what the source has delivered.
\<close>
definition bytes_ok :: "ArrayBuffer list \<Rightarrow> world \<Rightarrow> bool" where
  "bytes_ok rcv w = (
     (binding w = NotBinding \<longrightarrow> rcv = []) \<and>
     (\<forall>a. arrayBuffer (book w) = Some a \<longrightarrow>
        buffers w ! a @ concat (pending_chunks (buffers w) (reactions w)) = concat rcv))"

text \<open>
  The loaders that dispatch \<open>BookLoadingStartedEvent\<close>: in each of these control states the
  event has been dispatched, and so it has in every world in which the pipeline was started
  by a load that was not from a BookPump.
\<close>
fun announced :: "loader_state \<Rightarrow> bool" where
  "announced NoLoader = False"
| "announced FileAwaitHandle = False"
| "announced (PumpListening u) = False"
| "announced LoaderDone = False"
| "announced l = True"

definition started_ok :: "world \<Rightarrow> bool" where
  "started_ok w = (announced (loader w) \<or> (binding w \<noteq> NotBinding \<and> bookBinderPromise w = None)
      \<longrightarrow> BookLoadingStartedEvent \<in> set (dispatched w))"

text \<open>
  The listeners exist only on a BookBinder of a started pipeline, and \<open>#finishedBinding\<close> is
  set only by one of them.
\<close>
definition sub_ok :: "world \<Rightarrow> bool" where
  "sub_ok w = ((subscribed w \<longrightarrow> binding w \<noteq> NotBinding) \<and>
               (finishedBinding (book w) \<longrightarrow> subscribed w))"

text \<open>
  The first event that the listener of a load from a BookPump receives is the end event: the
  pipeline is then started with \<open>evt.ab\<close>, which is \<open>undefined\<close>, throws at
  \<open>ab.byteLength\<close> with \<open>#startedBinding\<close> already set, and the promise that every later
  event reacts on is rejected. \<open>end_first\<close> is whether this happens in an execution.
\<close>
fun end_first :: "action list \<Rightarrow> world \<Rightarrow> bool" where
  "end_first [] w = False"
| "end_first (a # as) w =
     ((a = PumpEnd \<and> is_pump (loader w) \<and> bookBinderPromise w = None) \<or>
      end_first as (step a w))"

text \<open>The reactions that are registered on \<open>bookBinderPromise\<close> run, each of them once.\<close>
definition run_reactions :: "world \<Rightarrow> world" where
  "run_reactions w = exec (replicate (length (reactions w)) RunReaction) w"

text \<open>
  The BookBinder that the factory has made and whose \<open>start()\<close> has not resolved: the local
  \<open>bookBinder\<close> of \<open>#startBookBinding\<close>, not yet the field \<open>#bookBinder\<close>.
\<close>
definition created_binder :: "world \<Rightarrow> BookBinder option" where
  "created_binder w = (case binding w of AwaitStart bd \<Rightarrow> Some bd | _ \<Rightarrow> None)"

text \<open>
  The pipeline is rejected with a \<open>TypeError\<close> only where a BookPump sent its end event
  first (\<open>e\<close>), and then on a \<open>bookBinderPromise\<close>.
\<close>
definition wedge_ok :: "bool \<Rightarrow> world \<Rightarrow> bool" where
  "wedge_ok e w = (binding w = BindRejected TypeError \<longrightarrow> e \<and> bookBinderPromise w \<noteq> None)"

text \<open>
  A load from a BookPump finishes in a reaction; so where a load has finished, the reactions
  that are left, if there is a \<open>bookBinderPromise\<close>, are on a fulfilled promise: they run.
\<close>
fun promise_runs :: "promise option \<Rightarrow> binding_state \<Rightarrow> bool" where
  "promise_runs None bs = True"
| "promise_runs (Some p) bs = (p = Linked \<and> bs = BindResolved)"

definition fin_ok :: "world \<Rightarrow> bool" where
  "fin_ok w = (finishedLoading (book w) \<longrightarrow> promise_runs (bookBinderPromise w) (binding w))"

section \<open>Examples and observations\<close>

subsection \<open>Example books\<close>

text \<open>A Book constructed without a source: \<open>new Book('comic.cbz')\<close>.\<close>
definition book_without_source :: Book where
  "book_without_source =
     \<lparr>name = ''comic.cbz'', request = None, uri = None, fileObject = None,
      fileHandle = ArgUndefined, arrayBuffer = None, bookBinder = None, bookContainer = None,
      bookMetadata = None, expectedSize = - 1, finishedBinding = False,
      finishedLoading = False, needsLoading = True, pages = [], startedBinding = False,
      totalPages = 0\<rparr>"

text \<open>A Book constructed from a Request: \<open>new Book('comic.cbz', new Request('/comic.cbz'))\<close>.\<close>
definition book_of_request :: Book where
  "book_of_request =
     \<lparr>name = ''comic.cbz'', request = Some (Request ''/comic.cbz''), uri = None,
      fileObject = None, fileHandle = ArgUndefined, arrayBuffer = None, bookBinder = None,
      bookContainer = None, bookMetadata = None, expectedSize = - 1, finishedBinding = False,
      finishedLoading = False, needsLoading = True, pages = [], startedBinding = False,
      totalPages = 0\<rparr>"

text \<open>Books constructed from a URI, from a File and from a file handle.\<close>
definition book_of_uri :: Book where
  "book_of_uri = book_without_source\<lparr>uri := Some ''/comic.cbz''\<rparr>"

definition book_of_file :: Book where
  "book_of_file = book_without_source\<lparr>fileObject := Some (File ''comic.cbz'')\<rparr>"

definition book_of_handle :: Book where
  "book_of_handle =
     book_without_source\<lparr>fileHandle := ArgFileHandle (FileSystemFileHandle ''comic.cbz'')\<rparr>"

text \<open>What a binder factory may answer.\<close>
definition zip_binder :: binder_info where
  "zip_binder = \<lparr>bi_bookType = 1, bi_mimeType = ''application/zip'',
                  bi_loadingPercentage = 0, bi_unarchivingPercentage = 0,
                  bi_layoutPercentage = 0\<rparr>"

text \<open>
  A load from a BookPump: three data events, the binder resolving after the second, the end
  event, and every reaction run.
\<close>
definition pump_run :: "action list" where
  "pump_run = [CallLoadFromBookPump ''/comic.cbz'', PumpDataReceived [1, 2] 5,
               PumpDataReceived [3] 5, BinderCreated zip_binder, BinderStarted,
               PumpDataReceived [4, 5] 5, RunReaction, PumpEnd, RunReaction, RunReaction]"

text \<open>A load by fetch, chunk by chunk: three chunks, then the end of the stream.\<close>
definition fetch_run :: "action list" where
  "fetch_run = [CallLoadFromFetch, FetchResponse, ChunkRead (Some [1, 2]),
                BinderCreated zip_binder, BinderStarted, ChunkRead (Some [3]),
                ChunkRead (Some [4, 5]), ChunkRead None]"

text \<open>The race of the push-producer: two more data events before the binder resolves.\<close>
definition pump_race :: "action list" where
  "pump_race = [CallLoadFromBookPump ''/comic.cbz'', PumpDataReceived [1, 2] 5,
                PumpDataReceived [3] 5, PumpDataReceived [4, 5] 5, BinderCreated zip_binder,
                BinderStarted, RunReaction, RunReaction]"

text \<open>
  A one-shot load whose binder has reported three pages and extracted one.
\<close>
definition lagging_run :: "action list" where
  "lagging_run = [CallLoadFromArrayBuffer ''comic.cbz'' [1, 2, 3], BinderCreated zip_binder,
                  BinderStarted, BinderEvent (PROGRESS (Some 3) None),
                  BinderEvent (PAGE_EXTRACTED (Page 0) 0)]"

text \<open>A one-shot load, up to the end of its binding.\<close>
definition one_shot_run :: "action list" where
  "one_shot_run = [CallLoadFromArrayBuffer ''comic.cbz'' [1, 2, 3], BinderCreated zip_binder,
                   BinderStarted, BinderEvent (PAGE_EXTRACTED (Page 0) 0),
                   BinderEvent BINDING_COMPLETE]"

text \<open>
  Loads by \<open>load()\<close>: a fetch that reads its body at once, an XHR, a File, a file handle.
\<close>
definition body_run :: "action list" where
  "body_run = [CallLoad, FetchResponse, BodyRead [1, 2, 3], BinderCreated zip_binder,
               BinderStarted]"

definition xhr_run :: "action list" where
  "xhr_run = [CallLoad, XhrProgress 1 3, XhrLoad [1, 2, 3]]"

definition file_run :: "action list" where
  "file_run = [CallLoad, FileRead [1, 2, 3]]"

definition handle_run :: "action list" where
  "handle_run = [CallLoad, FileHandleResolved (File ''comic.cbz''), FileRead [1, 2, 3]]"

text \<open>
  A load from a BookPump that sends a data event after its end event: the reaction of the
  end event has run, the one of the last data event has not.
\<close>
definition pump_late_run :: "action list" where
  "pump_late_run = [CallLoadFromBookPump ''/comic.cbz'', PumpDataReceived [1, 2] 5,
                    BinderCreated zip_binder, BinderStarted, PumpDataReceived [3] 5, PumpEnd,
                    PumpDataReceived [4, 5] 5, RunReaction, RunReaction]"

text \<open>A binder that has all the bytes of its book when it is made.\<close>
definition loaded_binder :: binder_info where
  "loaded_binder = \<lparr>bi_bookType = 1, bi_mimeType = ''application/zip'',
                     bi_loadingPercentage = 1, bi_unarchivingPercentage = 0,
                     bi_layoutPercentage = 0\<rparr>"

text \<open>
  A one-shot load whose binder is made and extracts a page while its \<open>start()\<close> is pending;
  and the same load when \<open>start()\<close> is then rejected and the binder extracts one more page.
\<close>
definition window_run :: "action list" where
  "window_run = [CallLoadFromArrayBuffer ''comic.cbz'' [1, 2, 3], BinderCreated loaded_binder,
                 BinderEvent (PAGE_EXTRACTED (Page 0) 0)]"

definition rejected_start_run :: "action list" where
  "rejected_start_run = window_run @ [BinderStartFailed, BinderEvent (PAGE_EXTRACTED (Page 1) 1)]"

text \<open>The five kinds of source, as \<open>load\<close> and the loaders test them: by truthiness.\<close>
definition source_kinds :: "Book \<Rightarrow> bool list" where
  "source_kinds b =
     [request b \<noteq> None, truthy_str (uri b), fileObject b \<noteq> None, truthy_arg (fileHandle b),
      \<not> (request b \<noteq> None \<or> truthy_str (uri b) \<or> fileObject b \<noteq> None \<or>
         truthy_arg (fileHandle b))]"

text \<open>The contents of the metadata object \<open>getMetadata()\<close> returns.\<close>
definition metadata_contents :: "world \<Rightarrow> BookMetadata option" where
  "metadata_contents w = map_option (\<lambda>a. metadatas w ! a) (getMetadata (book w))"

text \<open>A world with two metadata objects of a caller.\<close>
definition two_records :: world where
  "two_records = (boot False book_without_source)
     \<lparr>metadatas := [\<lparr>md_bookType = 1, md_tags = [(''Series'', ''Showcase'')]\<rparr>,
                    \<lparr>md_bookType = 1, md_tags = [(''Series'', ''Action Comics'')]\<rparr>]\<rparr>"

section \<open>Proofs\<close>

subsection \<open>Every action keeps the invariants\<close>

lemmas op_defs = load_def loadFromXhr_def loadFromFetch_def loadFromFile_def loadFromArrayBuffer_def
  loadFromBookPump_def appendBytes_def setMetadata_def clone_def xhr_progress_def xhr_load_def
  xhr_error_def fetch_response_def fetch_failed_def chunk_read_def chunk_failed_def body_read_def
  file_handle_resolved_def file_handle_failed_def file_read_def pump_data_received_def pump_end_def
  pump_error_def binder_created_def binder_create_failed_def binder_started_def
  binder_start_failed_def binder_event_def run_reaction_def handleBookPumpEvents_def
  startBookBinding_def finish_loading_def fail_loading_def binding_failed_def settle_def
  dispatchEvent_def alloc_buffer_def alloc_metadata_def binder_appendBytes_def
  setNewExpectedSize_def

lemmas op_splits = option.splits loader_state.splits binding_state.splits list.splits
  pump_event.splits binder_event.splits sum.splits

lemma valid_events_mono: "valid_events n evts \<Longrightarrow> n \<le> m \<Longrightarrow> valid_events m evts"
  by (induction n evts rule: valid_events.induct) auto

lemma valid_events_Suc [simp]: "valid_events n evts \<Longrightarrow> valid_events (Suc n) evts"
  by (erule valid_events_mono) simp

lemma valid_events_snoc [simp]:
  "valid_events n (evts @ [e]) = (valid_events n evts \<and> valid_events n [e])"
  by (induction n evts rule: valid_events.induct) auto

lemma pending_chunks_grow [simp]:
  "valid_events (length bufs) evts \<Longrightarrow> pending_chunks (bufs @ xs) evts = pending_chunks bufs evts"
  by (induction bufs evts rule: pending_chunks.induct) (auto simp: nth_append)

lemma pending_chunks_snoc_data [simp]:
  "pending_chunks bufs (evts @ [BOOKPUMP_DATA_RECEIVED ab sz]) = pending_chunks bufs evts @ [bufs ! ab]"
  by (induction bufs evts rule: pending_chunks.induct) auto

lemma pending_chunks_snoc_end [simp]:
  "pending_chunks bufs (evts @ [BOOKPUMP_END]) = pending_chunks bufs evts"
  by (induction bufs evts rule: pending_chunks.induct) auto

lemma ctrl_step:
  "ctrl_ok w \<Longrightarrow> ctrl_ok (step a w)"
  unfolding ctrl_ok_def
  by (cases a; simp add: op_defs Let_def split_def split: op_splits;
      cases "loader w"; cases "binding w"; auto)

lemma addrs_step:
  "addrs_ok w \<Longrightarrow> addrs_ok (step a w)"
  unfolding addrs_ok_def
  by (cases a; simp add: op_defs Let_def split_def split: op_splits; auto simp: less_Suc_eq)

lemma fed_step:
  "ctrl_ok w \<Longrightarrow> addrs_ok w \<Longrightarrow> fed_ok rcv w \<Longrightarrow> fed_ok (rcv @ delivered a w) (step a w)"
  unfolding ctrl_ok_def addrs_ok_def fed_ok_def
  by (cases a; simp add: op_defs binder_fed_def Let_def split_def nth_append split: op_splits;
      cases "loader w"; cases "binding w"; auto simp: binder_fed_def nth_append)

lemma bytes_step:
  "ctrl_ok w \<Longrightarrow> addrs_ok w \<Longrightarrow> bytes_ok rcv w \<Longrightarrow> \<not> is_append a \<Longrightarrow> bytes_ok (rcv @ delivered a w) (step a w)"
  unfolding ctrl_ok_def addrs_ok_def bytes_ok_def
  by (cases a; simp add: op_defs Let_def split_def nth_append split: op_splits;
      cases "loader w"; cases "binding w"; auto simp: nth_append)

lemma started_step:
  "ctrl_ok w \<Longrightarrow> started_ok w \<Longrightarrow> started_ok (step a w)"
  unfolding ctrl_ok_def started_ok_def
  by (cases a; simp add: op_defs Let_def split_def split: op_splits;
      cases "loader w"; cases "binding w"; auto)

lemma sub_step:
  "sub_ok w \<Longrightarrow> sub_ok (step a w)"
  unfolding sub_ok_def
  by (cases a; simp add: op_defs Let_def split_def split: op_splits; auto)

lemma wedge_step:
  "ctrl_ok w \<Longrightarrow> wedge_ok e w \<Longrightarrow>
     wedge_ok (e \<or> (a = PumpEnd \<and> is_pump (loader w) \<and> bookBinderPromise w = None)) (step a w)"
  unfolding ctrl_ok_def wedge_ok_def
  by (cases a; simp add: op_defs Let_def split_def split: op_splits;
      cases "loader w"; cases "binding w"; auto)

lemma fin_step:
  "ctrl_ok w \<Longrightarrow> fin_ok w \<Longrightarrow> fin_ok (step a w)"
  unfolding ctrl_ok_def fin_ok_def
  by (cases a; simp add: op_defs Let_def split_def split: op_splits;
      cases "loader w"; cases "binding w"; cases "bookBinderPromise w"; auto)

lemma flags_step:
  "(startedBinding (book w) \<longrightarrow> startedBinding (book (step a w))) \<and>
   (finishedLoading (book w) \<longrightarrow> finishedLoading (book (step a w))) \<and>
   (finishedBinding (book w) \<longrightarrow> finishedBinding (book (step a w))) \<and>
   (\<not> needsLoading (book w) \<longrightarrow> \<not> needsLoading (book (step a w)))"
  by (cases a; simp add: op_defs Let_def split_def split: op_splits)

subsection \<open>Executions keep the invariants\<close>

lemma new_Book_fresh:
  "new_Book nm arg cont sz = Inr b \<Longrightarrow>
     needsLoading b \<and> \<not> startedBinding b \<and> \<not> finishedLoading b \<and> \<not> finishedBinding b \<and>
     arrayBuffer b = None \<and> bookBinder b = None \<and> pages b = [] \<and> totalPages b = 0"
  by (auto simp: new_Book_def Let_def split: if_splits)

lemma boot_ok:
  assumes "new_Book nm arg cont sz = Inr b"
  shows "ctrl_ok (boot cbc b)" "addrs_ok (boot cbc b)" "fed_ok [] (boot cbc b)" "bytes_ok [] (boot cbc b)"
  using new_Book_fresh [OF assms]
  by (simp_all add: ctrl_ok_def addrs_ok_def fed_ok_def bytes_ok_def boot_def)

lemma exec_ctrl: "ctrl_ok w \<Longrightarrow> ctrl_ok (exec acts w)"
  by (induction acts arbitrary: w) (simp_all add: ctrl_step)

lemma exec_fed:
  "ctrl_ok w \<Longrightarrow> addrs_ok w \<Longrightarrow> fed_ok rcv w \<Longrightarrow> fed_ok (rcv @ chunks acts w) (exec acts w)"
proof (induction acts arbitrary: w rcv)
  case Nil
  then show ?case by simp
next
  case (Cons a acts)
  have "fed_ok ((rcv @ delivered a w) @ chunks acts (step a w)) (exec acts (step a w))"
    using Cons.prems by (intro Cons.IH ctrl_step addrs_step fed_step)
  then show ?case by simp
qed

lemma exec_bytes:
  "ctrl_ok w \<Longrightarrow> addrs_ok w \<Longrightarrow> bytes_ok rcv w \<Longrightarrow> \<forall>a\<in>set acts. \<not> is_append a \<Longrightarrow>
     bytes_ok (rcv @ chunks acts w) (exec acts w)"
proof (induction acts arbitrary: w rcv)
  case Nil
  then show ?case by simp
next
  case (Cons a acts)
  have "bytes_ok ((rcv @ delivered a w) @ chunks acts (step a w)) (exec acts (step a w))"
    using Cons.prems by (intro Cons.IH ctrl_step addrs_step bytes_step) simp_all
  then show ?case by simp
qed

lemma run_reaction_queue:
  "bookBinderPromise w = Some Linked \<Longrightarrow> binding w = BindResolved \<Longrightarrow>
   reactions (run_reaction w) = tl (reactions w) \<and>
   bookBinderPromise (run_reaction w) = Some Linked \<and> binding (run_reaction w) = BindResolved"
  by (simp add: op_defs Let_def split_def split: op_splits)

lemma run_reactions_drop:
  "bookBinderPromise w = Some Linked \<Longrightarrow> binding w = BindResolved \<Longrightarrow>
   reactions (exec (replicate n RunReaction) w) = drop n (reactions w)"
proof (induction n arbitrary: w)
  case 0
  then show ?case by simp
next
  case (Suc n)
  from run_reaction_queue [OF Suc.prems] Suc.IH [of "run_reaction w"]
  show ?case by (simp add: drop_Suc)
qed

lemma exec_append: "exec (xs @ ys) w = exec ys (exec xs w)"
  by (induction xs arbitrary: w) simp_all

lemma chunks_append: "chunks (xs @ ys) w = chunks xs w @ chunks ys (exec xs w)"
  by (induction xs arbitrary: w) simp_all

lemma chunks_reactions: "chunks (replicate n RunReaction) w = []"
  by (induction n arbitrary: w) simp_all

lemma exec_wedge:
  "ctrl_ok w \<Longrightarrow> wedge_ok e w \<Longrightarrow> wedge_ok (e \<or> end_first acts w) (exec acts w)"
proof (induction acts arbitrary: w e)
  case Nil
  then show ?case by simp
next
  case (Cons a acts)
  have "wedge_ok ((e \<or> (a = PumpEnd \<and> is_pump (loader w) \<and> bookBinderPromise w = None))
                    \<or> end_first acts (step a w)) (exec acts (step a w))"
    using Cons.prems by (intro Cons.IH ctrl_step wedge_step)
  then show ?case by (simp add: disj_assoc)
qed

lemma exec_fin: "ctrl_ok w \<Longrightarrow> fin_ok w \<Longrightarrow> fin_ok (exec acts w)"
  by (induction acts arbitrary: w) (simp_all add: ctrl_step fin_step)

lemma exec_finished:
  "finishedLoading (book w) \<Longrightarrow> finishedLoading (book (exec acts w))"
  by (induction acts arbitrary: w) (simp_all add: flags_step)

lemma boot_wedge_fin:
  assumes "new_Book nm arg cont sz = Inr b"
  shows "wedge_ok False (boot cbc b)" "fin_ok (boot cbc b)"
  using new_Book_fresh [OF assms]
  by (simp_all add: wedge_ok_def fin_ok_def boot_def)

lemma run_reactions_empties:
  assumes "ctrl_ok w" and "fin_ok w" and "finishedLoading (book w)"
  shows "reactions (run_reactions w) = []"
proof (cases "bookBinderPromise w")
  case None
  with assms(1) have "reactions w = []"
    by (simp add: ctrl_ok_def)
  then show ?thesis
    by (simp add: run_reactions_def)
next
  case (Some p)
  with assms(2,3) have "bookBinderPromise w = Some Linked" "binding w = BindResolved"
    by (simp_all add: fin_ok_def)
  then show ?thesis
    by (simp add: run_reactions_def run_reactions_drop)
qed

section \<open>The claims\<close>

subsection \<open>C1: the bytes of the Book\<close>

lemma appendBytes_effect:
  "arrayBuffer (book w) = Some old \<Longrightarrow>
     appendBytes chunk w =
       (Inr (), w\<lparr>buffers := buffers w @ [buffers w ! old @ buffers w ! chunk],
                   book := (book w)\<lparr>arrayBuffer := Some (length (buffers w))\<rparr>\<rparr>)"
  by (simp add: appendBytes_def alloc_buffer_def)

lemma bytes_of_execution:
  assumes b: "new_Book nm arg cont sz = Inr b" and na: "\<forall>a\<in>set acts. \<not> is_append a"
    and c: "chunks acts (boot cbc b) \<noteq> []"
    and e: "\<not> end_first acts (boot cbc b) \<or> bookBinderPromise (exec acts (boot cbc b)) = None"
  shows "\<exists>bytes. book_bytes (exec acts (boot cbc b)) = Some bytes \<and>
           bytes @ concat (pending_chunks (buffers (exec acts (boot cbc b)))
                             (reactions (exec acts (boot cbc b))))
             = concat (chunks acts (boot cbc b))"
proof -
  let ?w = "exec acts (boot cbc b)"
  have ok: "ctrl_ok ?w"
    by (rule exec_ctrl) (rule boot_ok [OF b])
  have bo: "bytes_ok ([] @ chunks acts (boot cbc b)) ?w"
    by (rule exec_bytes) (use boot_ok [OF b] na in auto)
  have "wedge_ok (False \<or> end_first acts (boot cbc b)) ?w"
    by (rule exec_wedge) (use boot_ok [OF b] boot_wedge_fin [OF b] in auto)
  with e have nw: "binding ?w \<noteq> BindRejected TypeError"
    by (auto simp: wedge_ok_def)
  from bo c have nb: "binding ?w \<noteq> NotBinding"
    by (auto simp: bytes_ok_def)
  from nw nb have "has_bytes (binding ?w)"
    by (cases "binding ?w") auto
  with ok have "arrayBuffer (book ?w) \<noteq> None"
    by (simp add: ctrl_ok_def)
  then obtain a where a: "arrayBuffer (book ?w) = Some a"
    by auto
  with bo show ?thesis
    by (simp add: bytes_ok_def book_bytes_def)
qed

text \<open>
  C1: in every execution of a constructed Book in which only the load appends to the Book
  (the actions of all the strategies are actions of the execution):
  \<^item> once a chunk is delivered the Book has bytes, and these bytes, followed by the chunks of
    the data events of a BookPump whose reactions have not run yet, are the concatenation of
    the chunks delivered, in the order of their arrival, and the lengths add up; the one
    exception is a BookPump whose first event is its end event, after which no reaction runs;
  \<^item> where there is no \<open>bookBinderPromise\<close>, that is in every load that is not from a
    BookPump, the bytes are the concatenation of the chunks delivered so far, at every moment;
  \<^item> a Book that has finished loading has bytes, and when the reactions that are still
    registered have run they are the concatenation of all the chunks;
  \<^item> the length of that concatenation is the sum of the lengths of the chunks;
  \<^item> \<open>appendBytes(chunk)\<close> on a Book with a buffer allocates a new buffer (at an address
    that the heap did not have, every buffer of the heap left as it was) that holds the old
    bytes followed by the chunk.
\<close>
theorem bytes_are_the_chunks_in_order:
  "new_Book nm arg cont sz = Inr b \<Longrightarrow> \<forall>a\<in>set acts. \<not> is_append a \<Longrightarrow>
   (chunks acts (boot cbc b) \<noteq> [] \<and> \<not> end_first acts (boot cbc b) \<longrightarrow>
      (\<exists>bytes. book_bytes (exec acts (boot cbc b)) = Some bytes \<and>
         bytes @ concat (pending_chunks (buffers (exec acts (boot cbc b)))
                           (reactions (exec acts (boot cbc b))))
           = concat (chunks acts (boot cbc b)) \<and>
         length bytes + length (concat (pending_chunks (buffers (exec acts (boot cbc b)))
                           (reactions (exec acts (boot cbc b)))))
           = sum_list (map length (chunks acts (boot cbc b))))) \<and>
   (chunks acts (boot cbc b) \<noteq> [] \<and> bookBinderPromise (exec acts (boot cbc b)) = None \<longrightarrow>
      book_bytes (exec acts (boot cbc b)) = Some (concat (chunks acts (boot cbc b)))) \<and>
   (finishedLoading (book (exec acts (boot cbc b))) \<longrightarrow>
      book_bytes (exec acts (boot cbc b)) \<noteq> None \<and>
      book_bytes (run_reactions (exec acts (boot cbc b))) = Some (concat (chunks acts (boot cbc b)))) \<and>
   length (concat (chunks acts (boot cbc b))) = sum_list (map length (chunks acts (boot cbc b))) \<and>
   (arrayBuffer (book w) = Some old \<longrightarrow>
      fst (appendBytes chunk w) = Inr () \<and>
      arrayBuffer (book (snd (appendBytes chunk w))) = Some (length (buffers w)) \<and>
      buffers (snd (appendBytes chunk w)) = buffers w @ [buffers w ! old @ buffers w ! chunk] \<and>
      book_bytes (snd (appendBytes chunk w)) = Some (buffers w ! old @ buffers w ! chunk) \<and>
      length (buffers w ! old @ buffers w ! chunk)
        = length (buffers w ! old) + length (buffers w ! chunk))"
proof -
  assume b: "new_Book nm arg cont sz = Inr b" and na: "\<forall>a\<in>set acts. \<not> is_append a"
  let ?w = "exec acts (boot cbc b)"
  let ?p = "pending_chunks (buffers ?w) (reactions ?w)"
  let ?c = "chunks acts (boot cbc b)"
  let ?n = "length (reactions ?w)"
  have ok: "ctrl_ok ?w"
    by (rule exec_ctrl) (rule boot_ok [OF b])
  have fo: "fin_ok ?w"
    by (rule exec_fin) (use boot_ok [OF b] boot_wedge_fin [OF b] in auto)
  have run: "\<exists>bytes. book_bytes ?w = Some bytes \<and> bytes @ concat ?p = concat ?c \<and>
               length bytes + length (concat ?p) = sum_list (map length ?c)"
    if "?c \<noteq> []" "\<not> end_first acts (boot cbc b)"
  proof -
    from bytes_of_execution [OF b na that(1)] that(2)
    obtain bytes where bs: "book_bytes ?w = Some bytes" "bytes @ concat ?p = concat ?c"
      by blast
    from bs(2) have "length (bytes @ concat ?p) = length (concat ?c)"
      by simp
    then have "length bytes + length (concat ?p) = sum_list (map length ?c)"
      by (simp add: length_concat)
    with bs show ?thesis by blast
  qed
  have direct: "book_bytes ?w = Some (concat ?c)" if "?c \<noteq> []" "bookBinderPromise ?w = None"
  proof -
    from bytes_of_execution [OF b na that(1)] that(2)
    obtain bytes where bs: "book_bytes ?w = Some bytes" "bytes @ concat ?p = concat ?c"
      by blast
    from ok that(2) have "reactions ?w = []"
      by (simp add: ctrl_ok_def)
    with bs show ?thesis by simp
  qed
  have fin: "book_bytes ?w \<noteq> None \<and> book_bytes (run_reactions ?w) = Some (concat ?c)"
    if f: "finishedLoading (book ?w)"
  proof -
    let ?acts = "acts @ replicate ?n RunReaction"
    have e: "run_reactions ?w = exec ?acts (boot cbc b)"
      by (simp add: run_reactions_def exec_append)
    have c': "chunks ?acts (boot cbc b) = ?c"
      by (simp add: chunks_append chunks_reactions)
    have na': "\<forall>a\<in>set ?acts. \<not> is_append a"
      using na by auto
    have ok': "ctrl_ok (exec ?acts (boot cbc b))"
      by (rule exec_ctrl) (rule boot_ok [OF b])
    have f': "finishedLoading (book (exec ?acts (boot cbc b)))"
      using f by (simp add: exec_append exec_finished)
    have r': "reactions (exec ?acts (boot cbc b)) = []"
      using run_reactions_empties [OF ok fo f] e by simp
    have bo: "bytes_ok ([] @ chunks ?acts (boot cbc b)) (exec ?acts (boot cbc b))"
      by (rule exec_bytes) (use boot_ok [OF b] na' in auto)
    from ok f have "arrayBuffer (book ?w) \<noteq> None"
      by (simp add: ctrl_ok_def)
    then have 1: "book_bytes ?w \<noteq> None"
      by (simp add: book_bytes_def)
    from ok' f' have "arrayBuffer (book (exec ?acts (boot cbc b))) \<noteq> None"
      by (simp add: ctrl_ok_def)
    then obtain a where "arrayBuffer (book (exec ?acts (boot cbc b))) = Some a"
      by auto
    with bo r' c' have "book_bytes (exec ?acts (boot cbc b)) = Some (concat ?c)"
      by (simp add: bytes_ok_def book_bytes_def)
    with 1 e show ?thesis by simp
  qed
  have len: "length (concat ?c) = sum_list (map length ?c)"
    by (simp add: length_concat)
  have app: "arrayBuffer (book w) = Some old \<longrightarrow>
      fst (appendBytes chunk w) = Inr () \<and>
      arrayBuffer (book (snd (appendBytes chunk w))) = Some (length (buffers w)) \<and>
      buffers (snd (appendBytes chunk w)) = buffers w @ [buffers w ! old @ buffers w ! chunk] \<and>
      book_bytes (snd (appendBytes chunk w)) = Some (buffers w ! old @ buffers w ! chunk) \<and>
      length (buffers w ! old @ buffers w ! chunk)
        = length (buffers w ! old) + length (buffers w ! chunk)"
    by (simp add: appendBytes_effect book_bytes_def)
  from run direct fin len app show ?thesis
    by blast
qed

text \<open>
  The loads of every strategy: by fetch chunk by chunk (after the first chunk, after the
  second and at its end) and as one body, by XHR, from a File, from a file handle, from a
  buffer, and from a BookPump (with two reactions pending, and finished with one pending).
\<close>
theorem bytes_are_the_chunks_in_order_witness:
  "new_Book ''comic.cbz'' (ArgRequest (Request ''/comic.cbz'')) None (- 1) = Inr book_of_request \<and>
   new_Book ''comic.cbz'' (ArgString ''/comic.cbz'') None (- 1) = Inr book_of_uri \<and>
   new_Book ''comic.cbz'' (ArgFile (File ''comic.cbz'')) None (- 1) = Inr book_of_file \<and>
   new_Book ''comic.cbz'' (ArgFileHandle (FileSystemFileHandle ''comic.cbz'')) None (- 1)
     = Inr book_of_handle \<and>
   new_Book ''comic.cbz'' ArgUndefined None (- 1) = Inr book_without_source \<and>
   chunks fetch_run (boot True book_of_request) = [[1, 2], [3], [4, 5]] \<and>
   book_bytes (exec (take 3 fetch_run) (boot True book_of_request)) = Some [1, 2] \<and>
   book_bytes (exec (take 6 fetch_run) (boot True book_of_request)) = Some [1, 2, 3] \<and>
   book_bytes (exec fetch_run (boot True book_of_request)) = Some [1, 2, 3, 4, 5] \<and>
   chunks body_run (boot False book_of_request) = [[1, 2, 3]] \<and>
   book_bytes (exec body_run (boot False book_of_request)) = Some [1, 2, 3] \<and>
   chunks xhr_run (boot False book_of_uri) = [[1, 2, 3]] \<and>
   book_bytes (exec xhr_run (boot False book_of_uri)) = Some [1, 2, 3] \<and>
   chunks file_run (boot False book_of_file) = [[1, 2, 3]] \<and>
   book_bytes (exec file_run (boot False book_of_file)) = Some [1, 2, 3] \<and>
   chunks handle_run (boot False book_of_handle) = [[1, 2, 3]] \<and>
   book_bytes (exec handle_run (boot False book_of_handle)) = Some [1, 2, 3] \<and>
   chunks one_shot_run (boot False book_without_source) = [[1, 2, 3]] \<and>
   book_bytes (exec one_shot_run (boot False book_without_source)) = Some [1, 2, 3] \<and>
   chunks (take 6 pump_run) (boot False book_without_source) = [[1, 2], [3], [4, 5]] \<and>
   \<not> end_first (take 6 pump_run) (boot False book_without_source) \<and>
   pending_chunks (buffers (exec (take 6 pump_run) (boot False book_without_source)))
     (reactions (exec (take 6 pump_run) (boot False book_without_source))) = [[3], [4, 5]] \<and>
   book_bytes (exec (take 6 pump_run) (boot False book_without_source)) = Some [1, 2] \<and>
   chunks pump_late_run (boot False book_without_source) = [[1, 2], [3], [4, 5]] \<and>
   finishedLoading (book (exec pump_late_run (boot False book_without_source))) \<and>
   length (reactions (exec pump_late_run (boot False book_without_source))) = 1 \<and>
   book_bytes (run_reactions (exec pump_late_run (boot False book_without_source)))
     = Some [1, 2, 3, 4, 5] \<and>
   arrayBuffer (book (exec (take 5 pump_run) (boot False book_without_source))) = Some 1 \<and>
   book_bytes (snd (appendBytes 2 (exec (take 5 pump_run) (boot False book_without_source))))
     = Some [1, 2, 3]"
proof -
  let ?q = "boot True book_of_request"
  let ?r = "boot False book_of_request"
  let ?u = "boot False book_of_uri"
  let ?f = "boot False book_of_file"
  let ?h = "boot False book_of_handle"
  let ?n = "boot False book_without_source"
  have hq: "new_Book ''comic.cbz'' (ArgRequest (Request ''/comic.cbz'')) None (- 1) = Inr book_of_request"
    by (simp add: new_Book_def book_of_request_def)
  have hu: "new_Book ''comic.cbz'' (ArgString ''/comic.cbz'') None (- 1) = Inr book_of_uri"
    by (simp add: new_Book_def book_of_uri_def book_without_source_def)
  have hf: "new_Book ''comic.cbz'' (ArgFile (File ''comic.cbz'')) None (- 1) = Inr book_of_file"
    by (simp add: new_Book_def book_of_file_def book_without_source_def)
  have hh: "new_Book ''comic.cbz'' (ArgFileHandle (FileSystemFileHandle ''comic.cbz'')) None (- 1)
     = Inr book_of_handle"
    by (simp add: new_Book_def book_of_handle_def book_without_source_def)
  have hn: "new_Book ''comic.cbz'' ArgUndefined None (- 1) = Inr book_without_source"
    by (simp add: new_Book_def book_without_source_def)
  have na: "\<forall>a\<in>set (take 3 fetch_run). \<not> is_append a" "\<forall>a\<in>set (take 6 fetch_run). \<not> is_append a"
    "\<forall>a\<in>set fetch_run. \<not> is_append a" "\<forall>a\<in>set body_run. \<not> is_append a"
    "\<forall>a\<in>set xhr_run. \<not> is_append a" "\<forall>a\<in>set file_run. \<not> is_append a"
    "\<forall>a\<in>set handle_run. \<not> is_append a" "\<forall>a\<in>set one_shot_run. \<not> is_append a"
    "\<forall>a\<in>set (take 6 pump_run). \<not> is_append a" "\<forall>a\<in>set pump_late_run. \<not> is_append a"
    by (simp_all add: fetch_run_def body_run_def xhr_run_def file_run_def handle_run_def
        one_shot_run_def pump_run_def pump_late_run_def)
  have c: "chunks (take 3 fetch_run) ?q = [[1, 2]]" "chunks (take 6 fetch_run) ?q = [[1, 2], [3]]"
    "chunks fetch_run ?q = [[1, 2], [3], [4, 5]]" "chunks body_run ?r = [[1, 2, 3]]"
    "chunks xhr_run ?u = [[1, 2, 3]]" "chunks file_run ?f = [[1, 2, 3]]"
    "chunks handle_run ?h = [[1, 2, 3]]" "chunks one_shot_run ?n = [[1, 2, 3]]"
    "chunks (take 6 pump_run) ?n = [[1, 2], [3], [4, 5]]"
    "chunks pump_late_run ?n = [[1, 2], [3], [4, 5]]"
    by code_simp+
  have p: "bookBinderPromise (exec (take 3 fetch_run) ?q) = None"
    "bookBinderPromise (exec (take 6 fetch_run) ?q) = None"
    "bookBinderPromise (exec fetch_run ?q) = None" "bookBinderPromise (exec body_run ?r) = None"
    "bookBinderPromise (exec xhr_run ?u) = None" "bookBinderPromise (exec file_run ?f) = None"
    "bookBinderPromise (exec handle_run ?h) = None"
    "bookBinderPromise (exec one_shot_run ?n) = None"
    by code_simp+
  have e: "\<not> end_first (take 6 pump_run) ?n"
    by code_simp
  have q: "pending_chunks (buffers (exec (take 6 pump_run) ?n))
     (reactions (exec (take 6 pump_run) ?n)) = [[3], [4, 5]]"
    by code_simp
  have f: "finishedLoading (book (exec pump_late_run ?n))"
    by code_simp
  have l: "length (reactions (exec pump_late_run ?n)) = 1"
    by code_simp
  have o: "arrayBuffer (book (exec (take 5 pump_run) ?n)) = Some 1"
    by code_simp
  have bs: "buffers (exec (take 5 pump_run) ?n) ! 1 = [1, 2]"
    "buffers (exec (take 5 pump_run) ?n) ! 2 = [3]"
    by code_simp+
  have 1: "book_bytes (exec (take 3 fetch_run) ?q) = Some [1, 2]"
    using bytes_are_the_chunks_in_order [OF hq na(1), THEN conjunct2, THEN conjunct1, rule_format,
        OF conjI [OF _ p(1)]]
    by (simp add: c)
  have 2: "book_bytes (exec (take 6 fetch_run) ?q) = Some [1, 2, 3]"
    using bytes_are_the_chunks_in_order [OF hq na(2), THEN conjunct2, THEN conjunct1, rule_format,
        OF conjI [OF _ p(2)]]
    by (simp add: c)
  have 3: "book_bytes (exec fetch_run ?q) = Some [1, 2, 3, 4, 5]"
    using bytes_are_the_chunks_in_order [OF hq na(3), THEN conjunct2, THEN conjunct1, rule_format,
        OF conjI [OF _ p(3)]]
    by (simp add: c)
  have 4: "book_bytes (exec body_run ?r) = Some [1, 2, 3]"
    using bytes_are_the_chunks_in_order [OF hq na(4), THEN conjunct2, THEN conjunct1, rule_format,
        OF conjI [OF _ p(4)]]
    by (simp add: c)
  have 5: "book_bytes (exec xhr_run ?u) = Some [1, 2, 3]"
    using bytes_are_the_chunks_in_order [OF hu na(5), THEN conjunct2, THEN conjunct1, rule_format,
        OF conjI [OF _ p(5)]]
    by (simp add: c)
  have 6: "book_bytes (exec file_run ?f) = Some [1, 2, 3]"
    using bytes_are_the_chunks_in_order [OF hf na(6), THEN conjunct2, THEN conjunct1, rule_format,
        OF conjI [OF _ p(6)]]
    by (simp add: c)
  have 7: "book_bytes (exec handle_run ?h) = Some [1, 2, 3]"
    using bytes_are_the_chunks_in_order [OF hh na(7), THEN conjunct2, THEN conjunct1, rule_format,
        OF conjI [OF _ p(7)]]
    by (simp add: c)
  have 8: "book_bytes (exec one_shot_run ?n) = Some [1, 2, 3]"
    using bytes_are_the_chunks_in_order [OF hn na(8), THEN conjunct2, THEN conjunct1, rule_format,
        OF conjI [OF _ p(8)]]
    by (simp add: c)
  note T = bytes_are_the_chunks_in_order [OF hn na(9), of False "exec (take 5 pump_run) ?n" 1 2]
  have ne: "chunks (take 6 pump_run) ?n \<noteq> []"
    by (simp add: c)
  from T [THEN conjunct1, rule_format, OF conjI [OF ne e]]
  obtain bytes where b1: "book_bytes (exec (take 6 pump_run) ?n) = Some bytes"
    and b2: "bytes @ concat (pending_chunks (buffers (exec (take 6 pump_run) ?n))
                     (reactions (exec (take 6 pump_run) ?n)))
            = concat (chunks (take 6 pump_run) ?n)"
    by blast
  from b2 have "bytes @ [3, 4, 5] = [1, 2] @ [3, 4, 5]"
    by (simp only: q c) simp
  then have "bytes = [1, 2]"
    by (simp only: append_same_eq)
  with b1 have 9: "book_bytes (exec (take 6 pump_run) ?n) = Some [1, 2]"
    by simp
  note F = bytes_are_the_chunks_in_order [OF hn na(10), of False,
      THEN conjunct2, THEN conjunct2, THEN conjunct1, rule_format, OF f, THEN conjunct2]
  from F have 10: "book_bytes (run_reactions (exec pump_late_run ?n)) = Some [1, 2, 3, 4, 5]"
    by (simp add: c)
  from T [THEN conjunct2, THEN conjunct2, THEN conjunct2, THEN conjunct2, rule_format, OF o]
  have "book_bytes (snd (appendBytes 2 (exec (take 5 pump_run) ?n)))
      = Some (buffers (exec (take 5 pump_run) ?n) ! 1 @ buffers (exec (take 5 pump_run) ?n) ! 2)"
    by simp
  then have 11: "book_bytes (snd (appendBytes 2 (exec (take 5 pump_run) ?n))) = Some [1, 2, 3]"
    by (simp only: bs append.simps)
  from hq hu hf hh hn c(3) 1 2 3 c(4) 4 c(5) 5 c(6) 6 c(7) 7 c(8) 8 c(9) e q 9 c(10) f l 10 o 11
  show ?thesis
    by (intro conjI)
qed

subsection \<open>C2: the order in which the binder is fed\<close>

text \<open>
  C2: in every execution of a constructed Book, what the binder has been fed (the bytes it
  was constructed with, then the chunks of its \<open>appendBytes\<close>, in call order), followed by
  the chunks of the data events whose reactions have not run yet (in the order of their
  registration), is the list of the chunks the source has delivered, in the order of their
  arrival. So the binder sees the chunks in arrival order, whenever its construction resolves.
  The reactions run one at a time, oldest first: once the pipeline is resolved, \<open>n\<close> runs
  remove the first \<open>n\<close> reactions.
\<close>
theorem binder_is_fed_in_arrival_order:
  "new_Book nm arg cont sz = Inr b \<Longrightarrow>
   (\<forall>bd. bookBinder (book (exec acts (boot cbc b))) = Some bd \<longrightarrow>
      binder_fed bd @ pending_chunks (buffers (exec acts (boot cbc b)))
                        (reactions (exec acts (boot cbc b)))
        = chunks acts (boot cbc b)) \<and>
   (bookBinderPromise w = Some Linked \<and> binding w = BindResolved \<longrightarrow>
      reactions (exec (replicate n RunReaction) w) = drop n (reactions w))"
proof -
  assume b: "new_Book nm arg cont sz = Inr b"
  have "fed_ok ([] @ chunks acts (boot cbc b)) (exec acts (boot cbc b))"
    by (rule exec_fed) (rule boot_ok [OF b])+
  then show ?thesis
    by (auto simp: fed_ok_def run_reactions_drop)
qed

theorem binder_is_fed_in_arrival_order_witness:
  "new_Book ''comic.cbz'' ArgUndefined None (- 1) = Inr book_without_source \<and>
   chunks pump_race (boot False book_without_source) = [[1, 2], [3], [4, 5]] \<and>
   map_option bb_initial (bookBinder (book (exec pump_race (boot False book_without_source))))
     = Some [1, 2] \<and>
   map_option bb_appended (bookBinder (book (exec pump_race (boot False book_without_source))))
     = Some [[3], [4, 5]] \<and>
   map_option binder_fed (bookBinder (book (exec pump_race (boot False book_without_source))))
     = Some [[1, 2], [3], [4, 5]] \<and>
   reactions (exec (take 6 pump_race) (boot False book_without_source))
     = [BOOKPUMP_DATA_RECEIVED 2 5, BOOKPUMP_DATA_RECEIVED 3 5] \<and>
   reactions (exec (replicate 2 RunReaction) (exec (take 6 pump_race) (boot False book_without_source)))
     = []"
proof -
  let ?w0 = "boot False book_without_source"
  have h: "new_Book ''comic.cbz'' ArgUndefined None (- 1) = Inr book_without_source"
    by (simp add: new_Book_def book_without_source_def)
  have c: "chunks pump_race ?w0 = [[1, 2], [3], [4, 5]]"
    by code_simp
  have i: "map_option bb_initial (bookBinder (book (exec pump_race ?w0))) = Some [1, 2]"
    by code_simp
  have a: "map_option bb_appended (bookBinder (book (exec pump_race ?w0))) = Some [[3], [4, 5]]"
    by code_simp
  have r: "reactions (exec pump_race ?w0) = []"
    by code_simp
  have q: "reactions (exec (take 6 pump_race) ?w0)
     = [BOOKPUMP_DATA_RECEIVED 2 5, BOOKPUMP_DATA_RECEIVED 3 5]"
    by code_simp
  have p: "bookBinderPromise (exec (take 6 pump_race) ?w0) = Some Linked"
    "binding (exec (take 6 pump_race) ?w0) = BindResolved"
    by code_simp+
  from a obtain bd where bd: "bookBinder (book (exec pump_race ?w0)) = Some bd"
    by auto
  note T = binder_is_fed_in_arrival_order [OF h, of pump_race False "exec (take 6 pump_race) ?w0" 2]
  from T bd r c have "binder_fed bd = [[1, 2], [3], [4, 5]]"
    by simp
  moreover from T p q have "reactions (exec (replicate 2 RunReaction) (exec (take 6 pump_race) ?w0)) = []"
    by simp
  ultimately show ?thesis
    using h c i a q bd by simp
qed

subsection \<open>C3: a second load\<close>

text \<open>
  C3, as the specification states it, fails for \<open>load()\<close>: on a Book without a source that has
  been loaded from a buffer, \<open>needsLoading\<close> is false and a call of \<open>load()\<close> throws
  \<open>Could not load Book: no URI or File or FileHandle\<close>, not the error of a Book already
  loading.
\<close>
theorem second_load_without_source:
  "new_Book ''comic.cbz'' ArgUndefined None (- 1) = Inr book_without_source \<and>
   \<not> needsLoading (book (exec [CallLoadFromArrayBuffer ''comic.cbz'' [1, 2, 3]]
                              (boot False book_without_source))) \<and>
   fst (load (exec [CallLoadFromArrayBuffer ''comic.cbz'' [1, 2, 3]]
                (boot False book_without_source))) = Inl SourceMismatchError \<and>
   fst (load (exec [CallLoadFromArrayBuffer ''comic.cbz'' [1, 2, 3]]
                (boot False book_without_source))) \<noteq> Inl InvalidStateError"
  by code_simp

text \<open>
  C3, amended: when \<open>needsLoading\<close> is false, each of the five loaders fails with
  \<open>InvalidStateError\<close>, and \<open>load()\<close> fails with \<open>InvalidStateError\<close> when the Book has a source
  it can resolve and with \<open>SourceMismatchError\<close> when it has none; in every case the world
  (the bytes, the four flags and all the rest) is as it was.
\<close>
theorem second_load_fails_unchanged:
  "\<not> needsLoading (book w) \<Longrightarrow>
   loadFromXhr w = (Inl InvalidStateError, w) \<and>
   loadFromFetch w = (Inl InvalidStateError, w) \<and>
   loadFromFile w = (Inl InvalidStateError, w) \<and>
   loadFromArrayBuffer fileName ab w = (Inl InvalidStateError, w) \<and>
   loadFromBookPump bookUri w = (Inl InvalidStateError, w) \<and>
   load w = (Inl (if request (book w) \<noteq> None \<or> truthy_str (uri (book w)) \<or>
                     fileObject (book w) \<noteq> None \<or> truthy_arg (fileHandle (book w))
                  then InvalidStateError else SourceMismatchError), w)"
  by (simp add: loadFromXhr_def loadFromFetch_def loadFromFile_def loadFromArrayBuffer_def
      loadFromBookPump_def load_def)

theorem second_load_fails_unchanged_witness:
  "\<not> needsLoading (book (exec [CallLoadFromFetch] (boot True book_of_request))) \<and>
   loadFromFetch (exec [CallLoadFromFetch] (boot True book_of_request))
     = (Inl InvalidStateError, exec [CallLoadFromFetch] (boot True book_of_request)) \<and>
   load (exec [CallLoadFromFetch] (boot True book_of_request))
     = (Inl InvalidStateError, exec [CallLoadFromFetch] (boot True book_of_request))"
proof -
  have n: "\<not> needsLoading (book (exec [CallLoadFromFetch] (boot True book_of_request)))"
    by code_simp
  have r: "request (book (exec [CallLoadFromFetch] (boot True book_of_request))) \<noteq> None"
    by code_simp
  show ?thesis
    using second_load_fails_unchanged [OF n, of "''f''" 0 "''u''"] n r by simp
qed

subsection \<open>C4, C10: getPage\<close>

text \<open>
  C4, as the specification states it, fails: for a Book whose binder has reported three pages
  and extracted one, index 1 is within \<open>max(totalPageCount, pages.length)\<close>, and \<open>getPage(1)\<close>
  is \<open>undefined\<close>: neither a page nor the not-found result \<open>null\<close>.
\<close>
theorem getPage_in_range_without_page:
  "totalPages (book (exec lagging_run (boot False book_without_source))) = 3 \<and>
   pages (book (exec lagging_run (boot False book_without_source))) = [Page 0] \<and>
   \<not> js_lt (Num 1) 0 \<and> js_lt (Num 1) (max 3 (int (length [Page 0]))) \<and>
   getPage (book (exec lagging_run (boot False book_without_source))) (Num 1) = Undefined"
  by code_simp

text \<open>
  C4, amended: \<open>getPage\<close> is total (it has no throw and no read on \<open>null\<close>). With \<open>numPages\<close>
  the total page count when that is not 0 and the number of extracted pages otherwise, it
  returns \<open>null\<close> when \<open>i < 0\<close> or \<open>i >= numPages\<close>; for an \<open>i\<close> within these bounds it returns
  \<open>pages[i]\<close>, which is the page at index \<open>i\<close> when \<open>i\<close> is an integer below the number of
  extracted pages, and \<open>undefined\<close> when it is not (not \<open>null\<close> in either case). \<open>numPages\<close> is
  \<open>max(totalPageCount, pages.length)\<close> whenever the total is 0 or at least the number of
  extracted pages.
\<close>
theorem getPage_bounds:
  "(js_lt i 0 \<or> js_ge i (numPages b) \<longrightarrow> getPage b i = Null) \<and>
   (\<not> js_lt i 0 \<and> \<not> js_ge i (numPages b) \<longrightarrow>
      getPage b i = js_index (pages b) i \<and> getPage b i \<noteq> Null) \<and>
   (0 \<le> n \<and> n < numPages b \<and> n < int (length (pages b)) \<longrightarrow>
      getPage b (Num (of_int n)) = Val (pages b ! nat n)) \<and>
   (0 \<le> n \<and> n < numPages b \<and> int (length (pages b)) \<le> n \<longrightarrow>
      getPage b (Num (of_int n)) = Undefined) \<and>
   (\<not> js_lt (Num r) 0 \<and> \<not> js_ge (Num r) (numPages b) \<and> of_int \<lfloor>r\<rfloor> \<noteq> r \<longrightarrow>
      getPage b (Num r) = Undefined) \<and>
   getPage b NaN = Undefined \<and> getPage b PosInfinity = Null \<and> getPage b NegInfinity = Null \<and>
   (totalPages b = 0 \<or> int (length (pages b)) \<le> totalPages b \<longrightarrow>
      numPages b = max (totalPages b) (int (length (pages b))))"
proof -
  have "getPage b i \<noteq> Null" if "\<not> js_lt i 0" "\<not> js_ge i (numPages b)"
    using that by (cases i) (auto simp: getPage_def)
  then show ?thesis
    by (auto simp: getPage_def numPages_def)
qed

theorem getPage_bounds_witness:
  "js_ge (Num 3) (numPages (book_without_source\<lparr>totalPages := 3, pages := [Page 0, Page 7]\<rparr>)) \<and>
   getPage (book_without_source\<lparr>totalPages := 3, pages := [Page 0, Page 7]\<rparr>) (Num 3) = Null \<and>
   getPage (book_without_source\<lparr>totalPages := 3, pages := [Page 0, Page 7]\<rparr>) (Num (of_int 1))
     = Val (Page 7) \<and>
   getPage (book_without_source\<lparr>totalPages := 3, pages := [Page 0, Page 7]\<rparr>) (Num (of_int 2))
     = Undefined \<and>
   getPage (book_without_source\<lparr>totalPages := 3, pages := [Page 0, Page 7]\<rparr>) (Num (3 / 2))
     = Undefined \<and>
   numPages (book_without_source\<lparr>totalPages := 3, pages := [Page 0, Page 7]\<rparr>) = max 3 2"
proof -
  let ?b = "book_without_source\<lparr>totalPages := 3, pages := [Page 0, Page 7]\<rparr>"
  have n: "numPages ?b = 3" by (simp add: numPages_def)
  note a = getPage_bounds [of "Num 3" ?b 1 "3 / 2"] getPage_bounds [of "Num 3" ?b 2 "3 / 2"]
  show ?thesis using a n by simp
qed

text \<open>
  C10: when the reported total \<open>T\<close> exceeds the number of extracted pages, \<open>getPage(i)\<close> is
  \<open>undefined\<close> for every index from the number of extracted pages up to \<open>T\<close>, and \<open>null\<close>
  outside \<open>[0, T)\<close>; the two results are distinct. While the total is still 0, the bound of
  \<open>getPage\<close> is the number of extracted pages.
\<close>
theorem getPage_not_yet_extracted:
  "(int (length (pages b)) < totalPages b \<and> int (length (pages b)) \<le> n \<and> n < totalPages b \<longrightarrow>
      getPage b (Num (of_int n)) = Undefined) \<and>
   (int (length (pages b)) < totalPages b \<and> (n < 0 \<or> totalPages b \<le> n) \<longrightarrow>
      getPage b (Num (of_int n)) = Null) \<and>
   (Undefined :: Page js) \<noteq> Null \<and>
   (totalPages b = 0 \<longrightarrow>
      numPages b = int (length (pages b)) \<and>
      getPage b (Num (of_int n)) =
        (if 0 \<le> n \<and> n < int (length (pages b)) then Val (pages b ! nat n) else Null))"
  by (auto simp: getPage_def numPages_def)

theorem getPage_not_yet_extracted_witness:
  "int (length (pages (book_without_source\<lparr>totalPages := 3, pages := [Page 0]\<rparr>)))
     < totalPages (book_without_source\<lparr>totalPages := 3, pages := [Page 0]\<rparr>) \<and>
   getPage (book_without_source\<lparr>totalPages := 3, pages := [Page 0]\<rparr>) (Num (of_int 2)) = Undefined \<and>
   getPage (book_without_source\<lparr>totalPages := 3, pages := [Page 0]\<rparr>) (Num (of_int 3)) = Null \<and>
   totalPages (book_without_source\<lparr>pages := [Page 0]\<rparr>) = 0 \<and>
   getPage (book_without_source\<lparr>pages := [Page 0]\<rparr>) (Num (of_int 0)) = Val (Page 0) \<and>
   getPage (book_without_source\<lparr>pages := [Page 0]\<rparr>) (Num (of_int 1)) = Null"
  using getPage_not_yet_extracted [of "book_without_source\<lparr>totalPages := 3, pages := [Page 0]\<rparr>" 2]
    getPage_not_yet_extracted [of "book_without_source\<lparr>totalPages := 3, pages := [Page 0]\<rparr>" 3]
    getPage_not_yet_extracted [of "book_without_source\<lparr>pages := [Page 0]\<rparr>" 0]
    getPage_not_yet_extracted [of "book_without_source\<lparr>pages := [Page 0]\<rparr>" 1]
  by (simp add: book_without_source_def)

subsection \<open>C5: the four latches\<close>

lemma trace_all:
  assumes "P w" and step: "\<And>a w. P w \<Longrightarrow> P (step a w)"
  shows "\<forall>w'\<in>set (trace acts w). P w'"
  using assms(1)
proof (induction acts arbitrary: w)
  case Nil
  then show ?case by simp
next
  case (Cons a acts)
  have "P (step a w)" using Cons.prems by (rule step)
  then have "\<forall>w'\<in>set (trace acts (step a w)). P w'" by (rule Cons.IH)
  with Cons.prems show ?case by simp
qed

lemma trace_latch:
  assumes "\<And>a w. f w \<Longrightarrow> f (step a w)"
  shows "sorted (map f (trace acts w))"
proof (induction acts arbitrary: w)
  case Nil
  then show ?case by simp
next
  case (Cons a acts)
  have "\<forall>w'\<in>set (trace acts (step a w)). f w \<le> f w'"
  proof (cases "f w")
    case True
    then have "f (step a w)" by (rule assms)
    then have "\<forall>w'\<in>set (trace acts (step a w)). f w'"
      by (rule trace_all) (rule assms)
    then show ?thesis by simp
  next
    case False
    then show ?thesis by simp
  qed
  with Cons.IH [of "step a w"] show ?case by simp
qed

lemma ctrl_bytes_loading:
  assumes "ctrl_ok w" and "arrayBuffer (book w) \<noteq> None"
  shows "\<not> needsLoading (book w)"
proof
  assume "needsLoading (book w)"
  with assms(1) have "loader w = NoLoader"
    by (simp add: ctrl_ok_def)
  with assms(1) have "binding w = NotBinding"
    by (simp add: ctrl_ok_def)
  with assms(1) have "arrayBuffer (book w) = None"
    by (simp add: ctrl_ok_def)
  with assms(2) show False by simp
qed

lemma ctrl_sub_flags:
  assumes "ctrl_ok w" and "sub_ok w"
  shows "(startedBinding (book w) \<longrightarrow> \<not> needsLoading (book w)) \<and>
         (finishedLoading (book w) \<longrightarrow> startedBinding (book w)) \<and>
         (finishedBinding (book w) \<longrightarrow> startedBinding (book w))"
proof (intro conjI impI)
  assume s: "startedBinding (book w)"
  show "\<not> needsLoading (book w)"
  proof
    assume "needsLoading (book w)"
    with assms(1) have "loader w = NoLoader"
      by (simp add: ctrl_ok_def)
    with assms(1) have "binding w = NotBinding"
      by (simp add: ctrl_ok_def)
    with assms(1) s show False
      by (simp add: ctrl_ok_def)
  qed
next
  assume "finishedLoading (book w)"
  with assms(1) have "has_bytes (binding w)"
    by (simp add: ctrl_ok_def)
  then have "binding w \<noteq> NotBinding"
    by auto
  with assms(1) show "startedBinding (book w)"
    by (simp add: ctrl_ok_def)
next
  assume "finishedBinding (book w)"
  with assms(2) have "binding w \<noteq> NotBinding"
    by (simp add: sub_ok_def)
  with assms(1) show "startedBinding (book w)"
    by (simp add: ctrl_ok_def)
qed

text \<open>
  C5: along every execution of a constructed Book each flag changes in one direction only
  (the list of its values over the worlds of the execution is sorted: once set,
  \<open>startedBinding\<close>, \<open>finishedLoading\<close>, \<open>finishedBinding\<close> and the negation of \<open>needsLoading\<close>
  stay set, so each changes once and never back); in every world in which the Book has a
  buffer or has started binding, \<open>needsLoading\<close> is already false, and a Book that has
  finished loading or binding has started binding; and \<open>#startBookBinding\<close> on a Book that
  has started binding fails with \<open>DoubleBindError\<close> and changes nothing.
\<close>
theorem flags_are_latches:
  "new_Book nm arg cont sz = Inr b \<Longrightarrow>
   sorted (map (\<lambda>w. \<not> needsLoading (book w)) (trace acts (boot cbc b))) \<and>
   sorted (map (\<lambda>w. startedBinding (book w)) (trace acts (boot cbc b))) \<and>
   sorted (map (\<lambda>w. finishedLoading (book w)) (trace acts (boot cbc b))) \<and>
   sorted (map (\<lambda>w. finishedBinding (book w)) (trace acts (boot cbc b))) \<and>
   (\<forall>w\<in>set (trace acts (boot cbc b)).
      (arrayBuffer (book w) \<noteq> None \<longrightarrow> \<not> needsLoading (book w)) \<and>
      (startedBinding (book w) \<longrightarrow> \<not> needsLoading (book w)) \<and>
      (finishedLoading (book w) \<longrightarrow> startedBinding (book w)) \<and>
      (finishedBinding (book w) \<longrightarrow> startedBinding (book w))) \<and>
   (startedBinding (book w') \<longrightarrow>
      startBookBinding fileNameOrUri ab totalExpectedSize w' = (Inl DoubleBindError, w'))"
proof -
  assume b: "new_Book nm arg cont sz = Inr b"
  have "sub_ok (boot cbc b)"
    using new_Book_fresh [OF b] by (simp add: sub_ok_def boot_def)
  with boot_ok(1) [OF b] have "ctrl_ok (boot cbc b) \<and> sub_ok (boot cbc b)" ..
  then have "\<forall>w\<in>set (trace acts (boot cbc b)). ctrl_ok w \<and> sub_ok w"
    by (rule trace_all) (simp add: ctrl_step sub_step)
  then have i: "\<forall>w\<in>set (trace acts (boot cbc b)).
      (arrayBuffer (book w) \<noteq> None \<longrightarrow> \<not> needsLoading (book w)) \<and>
      (startedBinding (book w) \<longrightarrow> \<not> needsLoading (book w)) \<and>
      (finishedLoading (book w) \<longrightarrow> startedBinding (book w)) \<and>
      (finishedBinding (book w) \<longrightarrow> startedBinding (book w))"
    using ctrl_bytes_loading ctrl_sub_flags by blast
  have n: "sorted (map (\<lambda>w. \<not> needsLoading (book w)) (trace acts (boot cbc b)))"
    by (rule trace_latch) (simp add: flags_step)
  have s: "sorted (map (\<lambda>w. startedBinding (book w)) (trace acts (boot cbc b)))"
    by (rule trace_latch) (simp add: flags_step)
  have l: "sorted (map (\<lambda>w. finishedLoading (book w)) (trace acts (boot cbc b)))"
    by (rule trace_latch) (simp add: flags_step)
  have f: "sorted (map (\<lambda>w. finishedBinding (book w)) (trace acts (boot cbc b)))"
    by (rule trace_latch) (simp add: flags_step)
  have d: "startedBinding (book w') \<longrightarrow>
      startBookBinding fileNameOrUri ab totalExpectedSize w' = (Inl DoubleBindError, w')"
    by (simp add: startBookBinding_def)
  from n s l f i d show ?thesis
    by (intro conjI)
qed

theorem flags_are_latches_witness:
  "new_Book ''comic.cbz'' ArgUndefined None (- 1) = Inr book_without_source \<and>
   map (\<lambda>w. \<not> needsLoading (book w)) (trace one_shot_run (boot False book_without_source))
     = [False, True, True, True, True, True] \<and>
   map (\<lambda>w. startedBinding (book w)) (trace one_shot_run (boot False book_without_source))
     = [False, True, True, True, True, True] \<and>
   map (\<lambda>w. finishedLoading (book w)) (trace one_shot_run (boot False book_without_source))
     = [False, True, True, True, True, True] \<and>
   map (\<lambda>w. finishedBinding (book w)) (trace one_shot_run (boot False book_without_source))
     = [False, False, False, False, False, True] \<and>
   sorted (map (\<lambda>w. finishedBinding (book w)) (trace one_shot_run (boot False book_without_source))) \<and>
   startedBinding (book (exec one_shot_run (boot False book_without_source))) \<and>
   startBookBinding ''again'' (Some 0) 3 (exec one_shot_run (boot False book_without_source))
     = (Inl DoubleBindError, exec one_shot_run (boot False book_without_source))"
proof -
  have h: "new_Book ''comic.cbz'' ArgUndefined None (- 1) = Inr book_without_source"
    by (simp add: new_Book_def book_without_source_def)
  have n: "map (\<lambda>w. \<not> needsLoading (book w)) (trace one_shot_run (boot False book_without_source))
     = [False, True, True, True, True, True]"
    by code_simp
  have s: "map (\<lambda>w. startedBinding (book w)) (trace one_shot_run (boot False book_without_source))
     = [False, True, True, True, True, True]"
    by code_simp
  have l: "map (\<lambda>w. finishedLoading (book w)) (trace one_shot_run (boot False book_without_source))
     = [False, True, True, True, True, True]"
    by code_simp
  have f: "map (\<lambda>w. finishedBinding (book w)) (trace one_shot_run (boot False book_without_source))
     = [False, False, False, False, False, True]"
    by code_simp
  have t: "startedBinding (book (exec one_shot_run (boot False book_without_source)))"
    by code_simp
  note T = flags_are_latches [OF h, of one_shot_run False
      "exec one_shot_run (boot False book_without_source)" "''again''" "Some 0" 3]
  from T have "sorted (map (\<lambda>w. finishedBinding (book w)) (trace one_shot_run (boot False book_without_source)))"
    by blast
  moreover from T t have "startBookBinding ''again'' (Some 0) 3 (exec one_shot_run (boot False book_without_source))
     = (Inl DoubleBindError, exec one_shot_run (boot False book_without_source))"
    by blast
  ultimately show ?thesis
    using h n s l f t by blast
qed

subsection \<open>C6: the events of loading and of binding\<close>

text \<open>
  C6 at a load from a BookPump: the Book has accumulated all five bytes and has finished
  loading, and the only event it has dispatched is \<open>BookLoadingCompleteEvent\<close>;
  \<open>BookLoadingStartedEvent\<close> was never dispatched.
\<close>
theorem pump_load_dispatches_no_loading_started:
  "new_Book ''comic.cbz'' ArgUndefined None (- 1) = Inr book_without_source \<and>
   book_bytes (exec pump_run (boot False book_without_source)) = Some [1, 2, 3, 4, 5] \<and>
   finishedLoading (book (exec pump_run (boot False book_without_source))) \<and>
   dispatched (exec pump_run (boot False book_without_source)) = [BookLoadingCompleteEvent] \<and>
   BookLoadingStartedEvent \<notin> set (dispatched (exec pump_run (boot False book_without_source)))"
  by code_simp

text \<open>
  The other four strategies do dispatch it: in every execution, a Book that has a buffer and
  was not loaded from a BookPump has dispatched \<open>BookLoadingStartedEvent\<close>.
\<close>
lemma exec_started:
  "ctrl_ok w \<Longrightarrow> started_ok w \<Longrightarrow> started_ok (exec acts w)"
  by (induction acts arbitrary: w) (simp_all add: ctrl_step started_step)

lemma loading_started_unless_pump:
  assumes "new_Book nm arg cont sz = Inr b"
    and "arrayBuffer (book (exec acts (boot cbc b))) \<noteq> None"
    and "bookBinderPromise (exec acts (boot cbc b)) = None"
  shows "BookLoadingStartedEvent \<in> set (dispatched (exec acts (boot cbc b)))"
proof -
  let ?w = "exec acts (boot cbc b)"
  have c: "ctrl_ok ?w"
    by (rule exec_ctrl) (rule boot_ok [OF assms(1)])
  have "started_ok (boot cbc b)"
    by (simp add: started_ok_def boot_def)
  with boot_ok(1) [OF assms(1)] have s: "started_ok ?w"
    by (rule exec_started)
  from c assms(2) have "has_bytes (binding ?w)"
    by (simp add: ctrl_ok_def)
  then have "binding ?w \<noteq> NotBinding"
    by auto
  with s assms(3) show ?thesis
    by (simp add: started_ok_def)
qed

text \<open>
  \<open>finishedBinding\<close> is set by nothing but the listener of \<open>BINDING_COMPLETE\<close>, and the
  end of loading does not wait for it.
\<close>
lemma finishedBinding_only_on_event:
  "finishedBinding (book (step a w)) \<Longrightarrow> \<not> finishedBinding (book w) \<Longrightarrow>
     a = BinderEvent BINDING_COMPLETE"
  by (cases a; simp add: op_defs Let_def split_def split: op_splits if_splits)

lemma loading_complete_before_binding_complete:
  "dispatched (exec one_shot_run (boot False book_without_source))
     = [BookLoadingStartedEvent, BookLoadingCompleteEvent,
        BookPageExtractedEvent (Page 0) 0, BookBindingCompleteEvent] \<and>
   map (\<lambda>w. (finishedLoading (book w), finishedBinding (book w)))
       (trace one_shot_run (boot False book_without_source))
     = [(False, False), (True, False), (True, False), (True, False), (True, False), (True, True)]"
  by code_simp

subsection \<open>C7: metadata\<close>

lemma setMetadata_effect:
  "setMetadata m w =
     w\<lparr>metadatas := metadatas w @ [metadatas w ! m],
       book := (book w)\<lparr>bookMetadata := Some (length (metadatas w))\<rparr>\<rparr>"
  by (simp add: setMetadata_def clone_def alloc_metadata_def)

lemma setMetadata_all_prefix:
  "length (metadatas w) \<le> length (metadatas (foldl (\<lambda>w m. setMetadata m w) w ms)) \<and>
   take (length (metadatas w)) (metadatas (foldl (\<lambda>w m. setMetadata m w) w ms)) = metadatas w"
proof (induction ms arbitrary: w)
  case Nil
  then show ?case by simp
next
  case (Cons m ms)
  let ?w1 = "setMetadata m w"
  have l: "length (metadatas ?w1) = Suc (length (metadatas w))"
    by (simp add: setMetadata_effect)
  have p: "take (length (metadatas w)) (metadatas ?w1) = metadatas w"
    by (simp add: setMetadata_effect)
  from Cons.IH [of ?w1] have le: "length (metadatas ?w1) \<le> length (metadatas (foldl (\<lambda>w m. setMetadata m w) ?w1 ms))"
    and tk: "take (length (metadatas ?w1)) (metadatas (foldl (\<lambda>w m. setMetadata m w) ?w1 ms)) = metadatas ?w1"
    by simp_all
  have "take (length (metadatas w)) (metadatas (foldl (\<lambda>w m. setMetadata m w) ?w1 ms))
      = take (length (metadatas w)) (take (length (metadatas ?w1)) (metadatas (foldl (\<lambda>w m. setMetadata m w) ?w1 ms)))"
    by (simp add: l min_def)
  also have "\<dots> = metadatas w"
    by (simp only: tk p)
  finally show ?case using le l by simp
qed

lemma setMetadata_all_stored:
  "ms \<noteq> [] \<Longrightarrow> \<forall>m\<in>set ms. m < length (metadatas w) \<Longrightarrow>
   (\<exists>a. getMetadata (book (foldl (\<lambda>w m. setMetadata m w) w ms)) = Some a \<and>
        length (metadatas w) \<le> a \<and>
        a < length (metadatas (foldl (\<lambda>w m. setMetadata m w) w ms)) \<and>
        metadatas (foldl (\<lambda>w m. setMetadata m w) w ms) ! a = metadatas w ! last ms)"
proof (induction ms arbitrary: w)
  case Nil
  then show ?case by simp
next
  case (Cons m ms)
  let ?w1 = "setMetadata m w"
  have m: "m < length (metadatas w)" using Cons.prems by simp
  show ?case
  proof (cases "ms = []")
    case True
    then show ?thesis
      by (simp add: setMetadata_effect getMetadata_def)
  next
    case False
    have v: "\<forall>x\<in>set ms. x < length (metadatas ?w1)"
      using Cons.prems by (auto simp: setMetadata_effect)
    from Cons.IH [OF False v] obtain a where
      a: "getMetadata (book (foldl (\<lambda>w m. setMetadata m w) ?w1 ms)) = Some a"
         "length (metadatas ?w1) \<le> a"
         "a < length (metadatas (foldl (\<lambda>w m. setMetadata m w) ?w1 ms))"
         "metadatas (foldl (\<lambda>w m. setMetadata m w) ?w1 ms) ! a = metadatas ?w1 ! last ms"
      by blast
    have "last ms < length (metadatas w)"
      using Cons.prems False by simp
    then have "metadatas ?w1 ! last ms = metadatas w ! last ms"
      by (simp add: setMetadata_effect nth_append)
    with a False show ?thesis
      by (auto simp: setMetadata_effect)
  qed
qed

text \<open>
  C7: after any sequence of \<open>setMetadata\<close> calls with records of the caller, \<open>getMetadata()\<close>
  refers to an object that did not exist before the calls and that holds the contents of the
  last record; a later write of the caller to any of its records (to any object that existed
  before the calls) leaves what \<open>getMetadata()\<close> refers to as it is.
\<close>
theorem setMetadata_stores_a_copy:
  "ms \<noteq> [] \<Longrightarrow> \<forall>m\<in>set ms. m < length (metadatas w) \<Longrightarrow> c < length (metadatas w) \<Longrightarrow>
   (\<exists>a. getMetadata (book (foldl (\<lambda>w m. setMetadata m w) w ms)) = Some a \<and>
        length (metadatas w) \<le> a) \<and>
   metadata_contents (foldl (\<lambda>w m. setMetadata m w) w ms) = Some (metadatas w ! last ms) \<and>
   metadata_contents (step (MutateMetadata c v) (foldl (\<lambda>w m. setMetadata m w) w ms))
     = Some (metadatas w ! last ms)"
proof -
  assume ms: "ms \<noteq> []" and v: "\<forall>m\<in>set ms. m < length (metadatas w)"
    and c: "c < length (metadatas w)"
  let ?w = "foldl (\<lambda>w m. setMetadata m w) w ms"
  from setMetadata_all_stored [OF ms v] obtain a where
    a: "getMetadata (book ?w) = Some a" "length (metadatas w) \<le> a"
       "a < length (metadatas ?w)" "metadatas ?w ! a = metadatas w ! last ms"
    by blast
  have "c < length (metadatas ?w)" "c \<noteq> a"
    using a c by simp_all
  with a show ?thesis
    by (auto simp: metadata_contents_def getMetadata_def)
qed

theorem setMetadata_stores_a_copy_witness:
  "[0, 1] \<noteq> ([] :: addr list) \<and> 0 < length (metadatas two_records) \<and>
   1 < length (metadatas two_records) \<and>
   metadata_contents
     (step (MutateMetadata 1 \<lparr>md_bookType = 1, md_tags = [(''Series'', ''Changed'')]\<rparr>)
        (foldl (\<lambda>w m. setMetadata m w) two_records [0, 1]))
     = Some \<lparr>md_bookType = 1, md_tags = [(''Series'', ''Action Comics'')]\<rparr>"
proof -
  have h1: "[0, 1] \<noteq> ([] :: addr list)" by simp
  have h2: "\<forall>m\<in>set [0, 1]. m < length (metadatas two_records)"
    by (simp add: two_records_def)
  have h3: "1 < length (metadatas two_records)"
    by (simp add: two_records_def)
  have l: "metadatas two_records ! last [0, 1]
             = \<lparr>md_bookType = 1, md_tags = [(''Series'', ''Action Comics'')]\<rparr>"
    by (simp add: two_records_def)
  show ?thesis
    using setMetadata_stores_a_copy [OF h1 h2 h3,
        of "\<lparr>md_bookType = 1, md_tags = [(''Series'', ''Changed'')]\<rparr>"] h1 h3 l
    by (simp add: two_records_def)
qed

subsection \<open>C8: the queries delegated to the binder\<close>

text \<open>
  C8, as the specification states it, fails between the two \<open>await\<close>s of
  \<open>#startBookBinding\<close>: the factory has made the BookBinder, the Book listens to it and has
  a page from it, and still \<open>getMIMEType()\<close> throws and \<open>getLoadingPercentage()\<close> is 0,
  whatever the binder would answer, because \<open>#bookBinder\<close> is assigned only after
  \<open>await bookBinder.start()\<close>. If \<open>start()\<close> is rejected it stays so, while the binder goes
  on extracting pages.
\<close>
theorem queries_while_binder_awaits_start:
  "new_Book ''comic.cbz'' ArgUndefined None (- 1) = Inr book_without_source \<and>
   map_option bb_mimeType (created_binder (exec window_run (boot False book_without_source)))
     = Some ''application/zip'' \<and>
   map_option bb_loadingPercentage (created_binder (exec window_run (boot False book_without_source)))
     = Some 1 \<and>
   subscribed (exec window_run (boot False book_without_source)) \<and>
   pages (book (exec window_run (boot False book_without_source))) = [Page 0] \<and>
   getMIMEType (book (exec window_run (boot False book_without_source))) = Inl NotBoundError \<and>
   getLoadingPercentage (book (exec window_run (boot False book_without_source))) = Inr 0 \<and>
   subscribed (exec rejected_start_run (boot False book_without_source)) \<and>
   pages (book (exec rejected_start_run (boot False book_without_source))) = [Page 0, Page 1] \<and>
   getMIMEType (book (exec rejected_start_run (boot False book_without_source)))
     = Inl NotBoundError \<and>
   getLoadingPercentage (book (exec rejected_start_run (boot False book_without_source))) = Inr 0"
  by code_simp

text \<open>
  C8, amended: in every execution of a constructed Book, as long as the pipeline is not
  resolved (it was not started, it awaits the factory, it awaits \<open>start()\<close> of the binder
  the factory made, or it was rejected) \<open>#bookBinder\<close> is not set, \<open>getMIMEType()\<close> throws
  and the three percentages are 0; once \<open>start()\<close> has resolved \<open>#bookBinder\<close> is set and
  each of the four is the answer of that binder. For any Book at all the four getters depend
  on \<open>#bookBinder\<close> only.
\<close>
theorem queries_delegate_once_start_resolved:
  "new_Book nm arg cont sz = Inr b \<Longrightarrow>
   (binding (exec acts (boot cbc b)) \<noteq> BindResolved \<longrightarrow>
      bookBinder (book (exec acts (boot cbc b))) = None \<and>
      getMIMEType (book (exec acts (boot cbc b))) = Inl NotBoundError \<and>
      getLoadingPercentage (book (exec acts (boot cbc b))) = Inr 0 \<and>
      getUnarchivingPercentage (book (exec acts (boot cbc b))) = Inr 0 \<and>
      getLayoutPercentage (book (exec acts (boot cbc b))) = Inr 0) \<and>
   (binding (exec acts (boot cbc b)) = BindResolved \<longrightarrow>
      (\<exists>bd. bookBinder (book (exec acts (boot cbc b))) = Some bd \<and>
         getMIMEType (book (exec acts (boot cbc b))) = Inr (bb_mimeType bd) \<and>
         getLoadingPercentage (book (exec acts (boot cbc b))) = Inr (bb_loadingPercentage bd) \<and>
         getUnarchivingPercentage (book (exec acts (boot cbc b)))
           = Inr (bb_unarchivingPercentage bd) \<and>
         getLayoutPercentage (book (exec acts (boot cbc b))) = Inr (bb_layoutPercentage bd))) \<and>
   (bookBinder b' = None \<longrightarrow>
      getMIMEType b' = Inl NotBoundError \<and> getLoadingPercentage b' = Inr 0 \<and>
      getUnarchivingPercentage b' = Inr 0 \<and> getLayoutPercentage b' = Inr 0) \<and>
   (bookBinder b' = Some bd' \<longrightarrow>
      getMIMEType b' = Inr (bb_mimeType bd') \<and>
      getLoadingPercentage b' = Inr (bb_loadingPercentage bd') \<and>
      getUnarchivingPercentage b' = Inr (bb_unarchivingPercentage bd') \<and>
      getLayoutPercentage b' = Inr (bb_layoutPercentage bd'))"
proof -
  assume b: "new_Book nm arg cont sz = Inr b"
  let ?w = "exec acts (boot cbc b)"
  have "ctrl_ok ?w"
    by (rule exec_ctrl) (rule boot_ok [OF b])
  then have set: "(bookBinder (book ?w) = None) = (binding ?w \<noteq> BindResolved)"
    by (simp add: ctrl_ok_def)
  have none: "getMIMEType x = Inl NotBoundError \<and> getLoadingPercentage x = Inr 0 \<and>
      getUnarchivingPercentage x = Inr 0 \<and> getLayoutPercentage x = Inr 0"
    if "bookBinder x = None" for x
    using that by (simp add: getMIMEType_def getLoadingPercentage_def
        getUnarchivingPercentage_def getLayoutPercentage_def)
  have some: "getMIMEType x = Inr (bb_mimeType d) \<and>
      getLoadingPercentage x = Inr (bb_loadingPercentage d) \<and>
      getUnarchivingPercentage x = Inr (bb_unarchivingPercentage d) \<and>
      getLayoutPercentage x = Inr (bb_layoutPercentage d)"
    if "bookBinder x = Some d" for x d
    using that by (simp add: getMIMEType_def getLoadingPercentage_def
        getUnarchivingPercentage_def getLayoutPercentage_def)
  have 1: "bookBinder (book ?w) = None \<and>
      getMIMEType (book ?w) = Inl NotBoundError \<and> getLoadingPercentage (book ?w) = Inr 0 \<and>
      getUnarchivingPercentage (book ?w) = Inr 0 \<and> getLayoutPercentage (book ?w) = Inr 0"
    if "binding ?w \<noteq> BindResolved"
  proof -
    from set that have "bookBinder (book ?w) = None" by simp
    with none [OF this] show ?thesis by simp
  qed
  have 2: "\<exists>bd. bookBinder (book ?w) = Some bd \<and>
         getMIMEType (book ?w) = Inr (bb_mimeType bd) \<and>
         getLoadingPercentage (book ?w) = Inr (bb_loadingPercentage bd) \<and>
         getUnarchivingPercentage (book ?w) = Inr (bb_unarchivingPercentage bd) \<and>
         getLayoutPercentage (book ?w) = Inr (bb_layoutPercentage bd)"
    if "binding ?w = BindResolved"
  proof -
    from set that have "bookBinder (book ?w) \<noteq> None" by simp
    then obtain d where d: "bookBinder (book ?w) = Some d" by auto
    with some [OF d] show ?thesis by simp
  qed
  from 1 2 none [of b'] some [of b' bd'] show ?thesis
    by blast
qed

theorem queries_delegate_once_start_resolved_witness:
  "new_Book ''comic.cbz'' ArgUndefined None (- 1) = Inr book_without_source \<and>
   binding (boot False book_without_source) = NotBinding \<and>
   getMIMEType (book (boot False book_without_source)) = Inl NotBoundError \<and>
   getLoadingPercentage (book (boot False book_without_source)) = Inr 0 \<and>
   created_binder (exec window_run (boot False book_without_source)) \<noteq> None \<and>
   getMIMEType (book (exec window_run (boot False book_without_source))) = Inl NotBoundError \<and>
   getLoadingPercentage (book (exec window_run (boot False book_without_source))) = Inr 0 \<and>
   getUnarchivingPercentage (book (exec window_run (boot False book_without_source))) = Inr 0 \<and>
   getLayoutPercentage (book (exec window_run (boot False book_without_source))) = Inr 0 \<and>
   binding (exec rejected_start_run (boot False book_without_source))
     = BindRejected BinderCreationError \<and>
   getMIMEType (book (exec rejected_start_run (boot False book_without_source)))
     = Inl NotBoundError \<and>
   binding (exec (window_run @ [BinderStarted]) (boot False book_without_source)) = BindResolved \<and>
   getMIMEType (book (exec (window_run @ [BinderStarted]) (boot False book_without_source)))
     = Inr ''application/zip'' \<and>
   getLoadingPercentage (book (exec (window_run @ [BinderStarted]) (boot False book_without_source)))
     = Inr 1"
proof -
  let ?n = "boot False book_without_source"
  let ?s = "exec (window_run @ [BinderStarted]) ?n"
  have h: "new_Book ''comic.cbz'' ArgUndefined None (- 1) = Inr book_without_source"
    by (simp add: new_Book_def book_without_source_def)
  have b0: "binding ?n = NotBinding"
    by (simp add: boot_def)
  have b0': "binding (exec [] ?n) \<noteq> BindResolved"
    by (simp add: boot_def)
  have c1: "created_binder (exec window_run ?n) \<noteq> None"
    by code_simp
  have b1: "binding (exec window_run ?n) \<noteq> BindResolved"
    by code_simp
  have b2: "binding (exec rejected_start_run ?n) = BindRejected BinderCreationError"
    by code_simp
  then have b2': "binding (exec rejected_start_run ?n) \<noteq> BindResolved"
    by simp
  have b3: "binding ?s = BindResolved"
    by code_simp
  have m: "map_option bb_mimeType (bookBinder (book ?s)) = Some ''application/zip''"
    "map_option bb_loadingPercentage (bookBinder (book ?s)) = Some 1"
    by code_simp+
  note N = queries_delegate_once_start_resolved [OF h, THEN conjunct1, rule_format]
  note S = queries_delegate_once_start_resolved [OF h, THEN conjunct2, THEN conjunct1, rule_format]
  from N [of "[]" False, OF b0'] have 0: "getMIMEType (book ?n) = Inl NotBoundError"
    "getLoadingPercentage (book ?n) = Inr 0"
    by simp_all
  from N [of window_run False, OF b1] have 1: "getMIMEType (book (exec window_run ?n)) = Inl NotBoundError"
    "getLoadingPercentage (book (exec window_run ?n)) = Inr 0"
    "getUnarchivingPercentage (book (exec window_run ?n)) = Inr 0"
    "getLayoutPercentage (book (exec window_run ?n)) = Inr 0"
    by simp_all
  from N [of rejected_start_run False, OF b2']
  have 2: "getMIMEType (book (exec rejected_start_run ?n)) = Inl NotBoundError"
    by simp
  from S [of "window_run @ [BinderStarted]" False, OF b3] m
  have 3: "getMIMEType (book ?s) = Inr ''application/zip''" "getLoadingPercentage (book ?s) = Inr 1"
    by auto
  from h b0 0 c1 1 b2 2 b3 3 show ?thesis
    by (intro conjI)
qed

subsection \<open>C9: the source of a Book\<close>

lemma source_step:
  "name (book (step a w)) = name (book w) \<and> request (book (step a w)) = request (book w) \<and>
   uri (book (step a w)) = uri (book w) \<and> fileObject (book (step a w)) = fileObject (book w) \<and>
   fileHandle (book (step a w)) = fileHandle (book w)"
  by (cases a; simp add: op_defs Let_def split_def split: op_splits)

lemma source_exec:
  "name (book (exec acts w)) = name (book w) \<and> request (book (exec acts w)) = request (book w) \<and>
   uri (book (exec acts w)) = uri (book w) \<and> fileObject (book (exec acts w)) = fileObject (book w) \<and>
   fileHandle (book (exec acts w)) = fileHandle (book w)"
  by (induction acts arbitrary: w) (simp_all add: source_step)

text \<open>
  C9: of the five kinds of source exactly one holds of a constructed Book: its request, its
  URI, its File, its file handle (at most one of these four is set, the one the argument of
  the constructor is), or none of them, which is the Book that only a BookPump or a buffer
  can load. No execution changes the four fields. \<open>load()\<close> on a Book with none of the four
  fails with \<open>SourceMismatchError\<close> and changes nothing.
\<close>
theorem one_source_kind:
  "new_Book nm arg cont sz = Inr b \<Longrightarrow>
   length (filter id (source_kinds b)) = 1 \<and>
   length (filter id (take 4 (source_kinds b))) \<le> 1 \<and>
   source_kinds b =
     (case arg of
        ArgRequest q \<Rightarrow> [True, False, False, False, False]
      | ArgString s \<Rightarrow> if s \<noteq> [] then [False, True, False, False, False]
                       else [False, False, False, False, True]
      | ArgFile f \<Rightarrow> [False, False, True, False, False]
      | ArgFileHandle h \<Rightarrow> [False, False, False, True, False]
      | ArgUndefined \<Rightarrow> [False, False, False, False, True]) \<and>
   source_kinds (book (exec acts (boot cbc b))) = source_kinds b \<and>
   request (book (exec acts (boot cbc b))) = request b \<and>
   uri (book (exec acts (boot cbc b))) = uri b \<and>
   fileObject (book (exec acts (boot cbc b))) = fileObject b \<and>
   fileHandle (book (exec acts (boot cbc b))) = fileHandle b \<and>
   (last (source_kinds (book w)) \<longrightarrow> load w = (Inl SourceMismatchError, w))"
proof -
  assume b: "new_Book nm arg cont sz = Inr b"
  have k: "source_kinds b =
     (case arg of
        ArgRequest q \<Rightarrow> [True, False, False, False, False]
      | ArgString s \<Rightarrow> if s \<noteq> [] then [False, True, False, False, False]
                       else [False, False, False, False, True]
      | ArgFile f \<Rightarrow> [False, False, True, False, False]
      | ArgFileHandle h \<Rightarrow> [False, False, False, True, False]
      | ArgUndefined \<Rightarrow> [False, False, False, False, True])"
    using b by (cases arg) (auto simp: new_Book_def source_kinds_def Let_def split: if_splits)
  have c: "length (filter id (source_kinds b)) = 1 \<and> length (filter id (take 4 (source_kinds b))) \<le> 1"
    unfolding k by (cases arg) auto
  have e: "source_kinds (book (exec acts (boot cbc b))) = source_kinds b"
    using source_exec [of acts "boot cbc b"] by (simp add: source_kinds_def boot_def)
  have l: "last (source_kinds (book w)) \<longrightarrow> load w = (Inl SourceMismatchError, w)"
    by (auto simp: source_kinds_def load_def)
  show ?thesis
    using k c e l source_exec [of acts "boot cbc b"] by (simp add: boot_def)
qed

theorem one_source_kind_witness:
  "new_Book ''comic.cbz'' (ArgRequest (Request ''/comic.cbz'')) None (- 1) = Inr book_of_request \<and>
   source_kinds book_of_request = [True, False, False, False, False] \<and>
   source_kinds (book (exec fetch_run (boot True book_of_request))) = source_kinds book_of_request \<and>
   last (source_kinds (book (boot False book_without_source))) \<and>
   load (boot False book_without_source) = (Inl SourceMismatchError, boot False book_without_source)"
proof -
  have h: "new_Book ''comic.cbz'' (ArgRequest (Request ''/comic.cbz'')) None (- 1) = Inr book_of_request"
    by (simp add: new_Book_def book_of_request_def)
  have l: "last (source_kinds (book (boot False book_without_source)))"
    by (simp add: source_kinds_def boot_def book_without_source_def)
  show ?thesis
    using one_source_kind [OF h, of fetch_run True "boot False book_without_source"] h l
    by simp
qed

end
